theory Spec2Isabelle
  imports Main "HOL-Library.List_Lexorder" "HOL-Library.Char_ord"
begin

section \<open>Values thrown and raised\<close>

text \<open>
  The helpers of \<^verbatim>\<open>messaging-helpers.js\<close> throw string primitives
  (\<^verbatim>\<open>throw 'Object is not a ...'\<close>); the language itself raises
  \<^verbatim>\<open>TypeError\<close> (a property read on \<^verbatim>\<open>undefined\<close>) and
  \<^verbatim>\<open>ReferenceError\<close> (an identifier that resolves nowhere); the test harness
  raises an assertion error that carries the description passed to the assertion; the
  platform rejects an operation with a \<^verbatim>\<open>DOMException\<close>.
\<close>

datatype js_error =
    Thrown string
  | TypeError string
  | ReferenceError string
  | AssertionError string
  | DOMException string

text \<open>\<^verbatim>\<open>`${error}`\<close>: a thrown string is itself, an error object prints its
  class and message.\<close>

fun error_to_string :: "js_error \<Rightarrow> string" where
  "error_to_string (Thrown s) = s"
| "error_to_string (TypeError m) = ''TypeError: '' @ m"
| "error_to_string (ReferenceError m) = ''ReferenceError: '' @ m"
| "error_to_string (AssertionError m) = ''AssertionError: '' @ m"
| "error_to_string (DOMException m) = ''DOMException: '' @ m"

text \<open>A property that holds a boolean or is absent (\<^verbatim>\<open>undefined\<close>); only
  \<^verbatim>\<open>true\<close> is truthy.\<close>

fun truthy :: "bool option \<Rightarrow> bool" where
  "truthy (Some b) = b"
| "truthy None = False"

section \<open>Handles and snapshots\<close>

text \<open>
  A handle is an object of the platform. The helpers read its \<^verbatim>\<open>isFile\<close>,
  \<^verbatim>\<open>isDirectory\<close> and \<^verbatim>\<open>name\<close> properties, query its two permission
  states, read a file's text through \<^verbatim>\<open>getFileContents\<close> and enumerate a
  directory with \<^verbatim>\<open>getEntries()\<close>, in the order the platform yields the
  children. Each query can be rejected by the platform. \<open>ref\<close> is the identity of the
  object (two references are the same object iff their \<open>ref\<close> agree), and
  \<open>to_string\<close> is what the object prints as in a template literal.
\<close>

datatype handle = Handle
  (ref: nat)
  (isFile: "bool option")
  (isDirectory: "bool option")
  (hname: string)
  (read_state: "js_error + string")
  (write_state: "js_error + string")
  (file_text: "js_error + string")
  (getEntries: "handle list")
  (to_string: string)

text \<open>
  The dictionary built by the serializer. \<open>file_contents\<close> is present on the
  snapshot of a file, \<open>files\<close> and \<open>directories\<close> on the snapshot of a
  directory; an absent property is \<open>None\<close>.
\<close>

datatype snapshot = Snapshot
  (is_file: "bool option")
  (is_directory: "bool option")
  (name: string)
  (read_permission: string)
  (write_permission: string)
  (file_contents: "string option")
  (files: "snapshot list option")
  (directories: "snapshot list option")

section \<open>Platform functions used by the serializer\<close>

text \<open>\<^verbatim>\<open>handle.queryPermission({ writable })\<close>.\<close>

definition queryPermission :: "handle \<Rightarrow> bool \<Rightarrow> js_error + string" where
  "queryPermission h writable = (if writable then write_state h else read_state h)"

text \<open>Modelled from the spec: \<^verbatim>\<open>getFileContents\<close> lives in
  \<^verbatim>\<open>test-helpers.js\<close>; the spec says that for a file the serializer "reads full
  content", an operation that "can fail".\<close>

definition getFileContents :: "handle \<Rightarrow> js_error + string" where
  "getFileContents h = file_text h"

text \<open>
  \<^verbatim>\<open>Array.prototype.sort(comparefn)\<close>: the language requires a stable sort that
  places \<open>a\<close> before \<open>b\<close> when \<open>comparefn(a, b) < 0\<close>. Insertion from
  the right end is such a sort: an element is put in front of the first element it does
  not exceed, so equal elements keep their order.
\<close>

fun insert_by :: "('a \<Rightarrow> 'a \<Rightarrow> int) \<Rightarrow> 'a \<Rightarrow> 'a list \<Rightarrow> 'a list" where
  "insert_by cmp x [] = [x]"
| "insert_by cmp x (y # ys) =
     (if cmp x y \<le> 0 then x # y # ys else y # insert_by cmp x ys)"

definition array_sort :: "('a \<Rightarrow> 'a \<Rightarrow> int) \<Rightarrow> 'a list \<Rightarrow> 'a list" where
  "array_sort cmp xs = foldr (insert_by cmp) xs []"

text \<open>
  \<^verbatim>\<open>String.prototype.localeCompare\<close> is the collation of the platform; the
  serializer takes it as the parameter \<open>lc\<close>. A collation is a consistent
  comparator: any two strings are comparable and the comparison is transitive.
\<close>

definition consistent :: "(string \<Rightarrow> string \<Rightarrow> int) \<Rightarrow> bool" where
  "consistent lc \<longleftrightarrow>
     (\<forall>a b. lc a b \<le> 0 \<or> lc b a \<le> 0) \<and>
     (\<forall>a b c. lc a b \<le> 0 \<and> lc b c \<le> 0 \<longrightarrow> lc a c \<le> 0)"

text \<open>
  Two consistent comparators, to run the examples with. The first compares character
  codes, so every upper-case letter precedes every lower-case one. The second, as a
  collation does, compares letters alphabetically before it looks at their case, so
  that \<open>a\<close> precedes \<open>B\<close> (\<^verbatim>\<open>'a'.localeCompare('B')\<close> is negative). On names
  in lower-case letters the two agree. Neither is the platform's collation: the
  theorems are stated for every comparator.
\<close>

definition lexicographic_compare :: "string \<Rightarrow> string \<Rightarrow> int" where
  "lexicographic_compare a b = (if a < b then - 1 else if a = b then 0 else 1)"

definition fold_case :: "char \<Rightarrow> nat" where
  "fold_case c =
     (if (65::nat) \<le> of_char c \<and> of_char c \<le> (90::nat) then of_char c + 32 else of_char c)"

definition case_folding_compare :: "string \<Rightarrow> string \<Rightarrow> int" where
  "case_folding_compare a b =
     (if map fold_case a < map fold_case b then - 1
      else if map fold_case a = map fold_case b then 0 else 1)"

section \<open>Serializer\<close>

text \<open>\<^verbatim>\<open>(left, right) => left.name.localeCompare(right.name)\<close>\<close>

definition by_name :: "(string \<Rightarrow> string \<Rightarrow> int) \<Rightarrow> snapshot \<Rightarrow> snapshot \<Rightarrow> int" where
  "by_name lc left right = lc (name left) (name right)"

text \<open>\<^verbatim>\<open>Object.assign(serialized_file_system_handle, { file_contents })\<close>\<close>

fun assign_file_contents :: "snapshot \<Rightarrow> string \<Rightarrow> snapshot" where
  "assign_file_contents (Snapshot f d n r w c fs ds) contents =
     Snapshot f d n r w (Some contents) fs ds"

text \<open>\<^verbatim>\<open>Object.assign(serialized_file_system_handle, { files, directories })\<close>\<close>

fun assign_children :: "snapshot \<Rightarrow> snapshot list \<Rightarrow> snapshot list \<Rightarrow> snapshot" where
  "assign_children (Snapshot f d n r w c fs ds) serialized_files serialized_directories =
     Snapshot f d n r w c (Some serialized_files) (Some serialized_directories)"

definition serialize_file_system_handle :: "handle \<Rightarrow> js_error + snapshot" where
  "serialize_file_system_handle file_system_handle =
     (case queryPermission file_system_handle False of
        Inl e \<Rightarrow> Inl e
      | Inr read_perm \<Rightarrow>
          (case queryPermission file_system_handle True of
             Inl e \<Rightarrow> Inl e
           | Inr write_perm \<Rightarrow>
               Inr (Snapshot (isFile file_system_handle) (isDirectory file_system_handle)
                      (hname file_system_handle) read_perm write_perm
                      None None None)))"

definition serialize_file_system_file_handle :: "handle \<Rightarrow> js_error + snapshot" where
  "serialize_file_system_file_handle file_handle =
     (case getFileContents file_handle of
        Inl e \<Rightarrow> Inl e
      | Inr contents \<Rightarrow>
          (case serialize_file_system_handle file_handle of
             Inl e \<Rightarrow> Inl e
           | Inr serialized_file_system_handle \<Rightarrow>
               Inr (assign_file_contents serialized_file_system_handle contents)))"

text \<open>
  \<open>serialize_handle\<close> and \<open>serialize_file_system_directory_handle\<close> call each
  other; \<open>serialize_entries\<close> is the \<^verbatim>\<open>for await\<close> loop of the latter, with
  the two arrays it pushes to.
\<close>

function serialize_handle :: "(string \<Rightarrow> string \<Rightarrow> int) \<Rightarrow> handle \<Rightarrow> js_error + snapshot"
  and serialize_file_system_directory_handle ::
    "(string \<Rightarrow> string \<Rightarrow> int) \<Rightarrow> handle \<Rightarrow> js_error + snapshot"
  and serialize_entries ::
    "(string \<Rightarrow> string \<Rightarrow> int) \<Rightarrow> handle list \<Rightarrow> snapshot list \<Rightarrow> snapshot list
       \<Rightarrow> js_error + snapshot list \<times> snapshot list"
where
  "serialize_handle lc handle =
     (if truthy (isDirectory handle) then serialize_file_system_directory_handle lc handle
      else if truthy (isFile handle) then serialize_file_system_file_handle handle
      else Inl (Thrown (''Object is not a FileSystemFileHandle or '' @
                        ''FileSystemDirectoryHandle '' @ to_string handle)))"
| "serialize_file_system_directory_handle lc directory_handle =
     (case serialize_entries lc (getEntries directory_handle) [] [] of
        Inl e \<Rightarrow> Inl e
      | Inr (serialized_files, serialized_directories) \<Rightarrow>
          (case serialize_file_system_handle directory_handle of
             Inl e \<Rightarrow> Inl e
           | Inr serialized_file_system_handle \<Rightarrow>
               Inr (assign_children serialized_file_system_handle
                      (array_sort (by_name lc) serialized_files)
                      (array_sort (by_name lc) serialized_directories))))"
| "serialize_entries lc [] serialized_files serialized_directories =
     Inr (serialized_files, serialized_directories)"
| "serialize_entries lc (child_handle # rest) serialized_files serialized_directories =
     (case serialize_handle lc child_handle of
        Inl e \<Rightarrow> Inl e
      | Inr serialized_child_handle \<Rightarrow>
          (if truthy (isDirectory child_handle)
           then serialize_entries lc rest serialized_files
                  (serialized_directories @ [serialized_child_handle])
           else serialize_entries lc rest (serialized_files @ [serialized_child_handle])
                  serialized_directories))"
  by pat_completeness auto

termination
  by (relation "measure (\<lambda>x. case x of
          Inl (lc, h) \<Rightarrow> 3 * size h + 2
        | Inr (Inl (lc, h)) \<Rightarrow> 3 * size h + 1
        | Inr (Inr (lc, hs, fs, ds)) \<Rightarrow> 3 * size_list size hs)")
     (auto simp: less_Suc_eq_le, case_tac directory_handle, simp)

declare serialize_handle.simps [simp del]

declare serialize_file_system_directory_handle.simps [simp del]

section \<open>Comparator\<close>

text \<open>
  \<^verbatim>\<open>assert_equals(actual, expected, description)\<close> of the test harness: it
  returns when the two values are the same value and raises an assertion error with the
  description otherwise. The values compared here are booleans, strings, numbers and
  absent properties, on which "same value" is equality.
\<close>

definition assert_equals :: "'a \<Rightarrow> 'a \<Rightarrow> string \<Rightarrow> js_error + unit" where
  "assert_equals actual expected description =
     (if actual = expected then Inr () else Inl (AssertionError description))"

text \<open>Statement sequencing: the second statement runs when the first one returned.\<close>

definition and_then :: "js_error + unit \<Rightarrow> js_error + 'a \<Rightarrow> js_error + 'a" where
  "and_then first rest = (case first of Inl e \<Rightarrow> Inl e | Inr _ \<Rightarrow> rest)"

text \<open>Reading \<^verbatim>\<open>.length\<close> or a property of \<^verbatim>\<open>undefined\<close>.\<close>

definition undefined_read :: "string \<Rightarrow> js_error" where
  "undefined_read property =
     TypeError (''Cannot read properties of undefined (reading '' @ property @ '')'')"

definition assert_equals_serialized_file_system_handles ::
  "snapshot \<Rightarrow> snapshot \<Rightarrow> js_error + unit" where
  \<open>assert_equals_serialized_file_system_handles left right =
     and_then (assert_equals (is_file left) (is_file right)
        ''Each FileSystemHandle instance must use the expected "isFile".'')
    (and_then (assert_equals (is_directory left) (is_directory right)
        ''Each FileSystemHandle instance must use the expected "isDirectory".'')
    (and_then (assert_equals (name left) (name right)
        ''Each FileSystemHandle instance must use the expected "name"  property.'')
    (and_then (assert_equals (read_permission left) (read_permission right)
        ''Each FileSystemHandle instance must have the expected read  permission.'')
    (assert_equals (write_permission left) (write_permission right)
        ''Each FileSystemHandle instance must have the expected write  permission.''))))\<close>

definition assert_equals_serialized_file_system_file_handles ::
  "snapshot \<Rightarrow> snapshot \<Rightarrow> js_error + unit" where
  "assert_equals_serialized_file_system_file_handles left right =
     and_then (assert_equals_serialized_file_system_handles left right)
       (assert_equals (file_contents left) (file_contents right)
          ''Each FileSystemFileHandle instance must have the same contents.'')"

text \<open>
  The first loop of the directory comparator:
  \<^verbatim>\<open>for (i = 0; i < left.files.length; ++i)\<close> compares \<^verbatim>\<open>left.files[i]\<close> with
  \<^verbatim>\<open>right.files[i]\<close>. Where the right array is shorter, \<^verbatim>\<open>right.files[i]\<close> is
  \<^verbatim>\<open>undefined\<close> and the first property read on it raises.
\<close>

fun files_loop :: "snapshot list \<Rightarrow> snapshot list \<Rightarrow> js_error + unit" where
  "files_loop [] rights = Inr ()"
| "files_loop (l # lefts) [] = Inl (undefined_read ''is_file'')"
| "files_loop (l # lefts) (r # rights) =
     and_then (assert_equals_serialized_file_system_file_handles l r)
       (files_loop lefts rights)"

text \<open>\<open>directories_loop\<close> is the second loop, which calls the directory comparator
  itself on each pair.\<close>

function assert_equals_serialized_file_system_directory_handles ::
    "snapshot \<Rightarrow> snapshot \<Rightarrow> js_error + unit"
  and directories_loop :: "snapshot list \<Rightarrow> snapshot list \<Rightarrow> js_error + unit"
where
  "assert_equals_serialized_file_system_directory_handles left right =
     and_then (assert_equals_serialized_file_system_handles left right)
       (case files left of
          None \<Rightarrow> Inl (undefined_read ''length'')
        | Some left_files \<Rightarrow>
       (case files right of
          None \<Rightarrow> Inl (undefined_read ''length'')
        | Some right_files \<Rightarrow>
     and_then (assert_equals (length left_files) (length right_files)
        (''Each FileSystemDirectoryHandle must contain the same number of '' @
         ''file children''))
    (and_then (files_loop left_files right_files)
       (case directories left of
          None \<Rightarrow> Inl (undefined_read ''length'')
        | Some left_directories \<Rightarrow>
       (case directories right of
          None \<Rightarrow> Inl (undefined_read ''length'')
        | Some right_directories \<Rightarrow>
     and_then (assert_equals (length left_directories) (length right_directories)
        (''Each FileSystemDirectoryHandle must contain the same number of '' @
         ''directory children''))
       (directories_loop left_directories right_directories))))))"
| "directories_loop [] rights = Inr ()"
| "directories_loop (l # lefts) [] = Inl (undefined_read ''is_file'')"
| "directories_loop (l # lefts) (r # rights) =
     and_then (assert_equals_serialized_file_system_directory_handles l r)
       (directories_loop lefts rights)"
  by pat_completeness auto

termination
  by (relation "measure (\<lambda>x. case x of
          Inl (left, right) \<Rightarrow> 2 * size left
        | Inr (lefts, rights) \<Rightarrow> 2 * size_list size lefts + 1)")
     (auto, case_tac left, simp)

declare assert_equals_serialized_file_system_directory_handles.simps [simp del]

text \<open>
  The dispatcher. Its last branch builds its message from an identifier
  \<^verbatim>\<open>handle\<close> that is neither a parameter nor a local of the function, so the
  identifier resolves in the global scope: \<open>scope_handle\<close> is what a global of that
  name prints as, \<open>None\<close> when no script declares one (none of the scripts of the
  repository does), and then evaluating the template literal raises
  \<^verbatim>\<open>ReferenceError\<close> before anything is thrown.
\<close>

definition assert_equals_serialized_handles ::
  "string option \<Rightarrow> snapshot \<Rightarrow> snapshot \<Rightarrow> js_error + unit" where
  "assert_equals_serialized_handles scope_handle left right =
     (if truthy (is_directory left)
      then assert_equals_serialized_file_system_directory_handles left right
      else if truthy (is_file left)
      then assert_equals_serialized_file_system_file_handles left right
      else (case scope_handle of
              None \<Rightarrow> Inl (ReferenceError ''handle is not defined'')
            | Some printed \<Rightarrow>
                Inl (Thrown (''Object is not a FileSystemFileHandle or '' @
                             ''FileSystemDirectoryHandle '' @ printed))))"

section \<open>Messages, events and effects\<close>

text \<open>A window, a worker, a message port or a broadcast channel, by its identity.\<close>

datatype endpoint = Endpoint nat

text \<open>
  The data of an inbound message: an object with a \<^verbatim>\<open>type\<close> and the fields of
  that type, each present or absent.
\<close>

record message_data =
  type :: string
  message_port :: "endpoint option"
  broadcast_channel_name :: "string option"
  file_system_handles :: "handle list option"

text \<open>\<^verbatim>\<open>MessageEvent.data\<close>: \<^verbatim>\<open>null\<close> (as on a \<^verbatim>\<open>messageerror\<close>
  event), a string such as \<^verbatim>\<open>'LOADED'\<close>, or an object.\<close>

datatype event_data = Null | Text string | Data message_data

datatype message_event = MessageEvent
  (event_data: event_data)
  (event_origin: string)
  (lastEventId: string)
  (source: "endpoint option")
  (ports: "endpoint list")

text \<open>The dictionary built by \<open>serialize_message_error_event\<close>.\<close>

record serialized_message_error_event =
  data :: event_data
  origin :: string
  last_event_id :: string
  has_source :: bool
  ports_length :: nat

text \<open>
  What a message target posts: an object tagged by its \<^verbatim>\<open>type\<close>, or the string
  \<^verbatim>\<open>`ERROR: ${error}`\<close>. An element of \<^verbatim>\<open>serialized_file_system_handles\<close> is
  the pair \<^verbatim>\<open>{ handle, serialized }\<close>.
\<close>

datatype message =
    BroadcastChannelCreated
  | ReceiveSerializedFileSystemHandles "(handle \<times> snapshot) list"
  | ReceiveFile handle
  | ReceiveDirectory handle
  | SerializedMessageError serialized_message_error_event
  | ErrorText string

text \<open>\<^verbatim>\<open>response.type\<close>; a string has none.\<close>

fun message_type :: "message \<Rightarrow> string option" where
  "message_type BroadcastChannelCreated = Some ''broadcast-channel-created''"
| "message_type (ReceiveSerializedFileSystemHandles hs) =
     Some ''receive-serialized-file-system-handles''"
| "message_type (ReceiveFile h) = Some ''receive-file''"
| "message_type (ReceiveDirectory h) = Some ''receive-directory''"
| "message_type (SerializedMessageError e) = Some ''serialized-message-error''"
| "message_type (ErrorText s) = None"

text \<open>
  The observable actions of a handler, in the order it performs them: the two listeners
  that \<open>add_message_event_handlers\<close> attaches to a receiver (with the target and the
  target origin they will reply to), the start of a port, a broadcast channel opened, an
  entry got or created in the sandbox directory, and a message posted to a destination
  with a target origin.
\<close>

datatype effect =
    AddMessageEventHandlers endpoint "endpoint option" "string option"
  | Start endpoint
  | NewBroadcastChannel string endpoint
  | GetFile string
  | GetDirectory string
  | PostMessage endpoint message "string option"

text \<open>
  The platform, as far as the handlers call it: the channel that
  \<^verbatim>\<open>new BroadcastChannel(name)\<close> returns, the sandbox directory, the entries that
  \<^verbatim>\<open>getFile\<close> and \<^verbatim>\<open>getDirectory\<close> return (with \<^verbatim>\<open>create: true\<close>), and
  the exception, if any, with which \<^verbatim>\<open>postMessage\<close> rejects a message for a
  destination and a target origin (a value that cannot be cloned, an origin the
  destination does not take).
\<close>

record platform =
  new_BroadcastChannel :: "string \<Rightarrow> endpoint"
  getSystemDirectory :: "js_error + handle"
  getFile :: "handle \<Rightarrow> string \<Rightarrow> js_error + handle"
  getDirectory :: "handle \<Rightarrow> string \<Rightarrow> js_error + handle"
  post_rejected :: "endpoint \<Rightarrow> message \<Rightarrow> string option \<Rightarrow> js_error option"

text \<open>A computation returns or raises, and has performed effects up to that point.\<close>

type_synonym 'a action = "(js_error + 'a) \<times> effect list"

definition returns :: "'a \<Rightarrow> 'a action" where
  "returns x = (Inr x, [])"

definition raises :: "js_error \<Rightarrow> 'a action" where
  "raises e = (Inl e, [])"

definition performs :: "effect \<Rightarrow> unit action" where
  "performs eff = (Inr (), [eff])"

definition await :: "js_error + 'a \<Rightarrow> 'a action" where
  "await r = (r, [])"

definition then_do :: "'a action \<Rightarrow> ('a \<Rightarrow> 'b action) \<Rightarrow> 'b action" where
  "then_do first rest =
     (case first of
        (Inl e, effects) \<Rightarrow> (Inl e, effects)
      | (Inr x, effects) \<Rightarrow> (case rest x of (r, effects') \<Rightarrow> (r, effects @ effects')))"

section \<open>Message router\<close>

text \<open>
  \<^verbatim>\<open>destination.postMessage(msg, target_origin)\<close>. The destination is what the
  handler resolved; when it is \<^verbatim>\<open>undefined\<close> the property read raises.
\<close>

definition postMessage :: "platform \<Rightarrow> endpoint option \<Rightarrow> message \<Rightarrow> string option \<Rightarrow> unit action"
where
  "postMessage pf destination msg target_origin =
     (case destination of
        None \<Rightarrow> raises (undefined_read ''postMessage'')
      | Some d \<Rightarrow>
          (case post_rejected pf d msg target_origin of
             Some e \<Rightarrow> raises e
           | None \<Rightarrow> performs (PostMessage d msg target_origin)))"

text \<open>
  \<^verbatim>\<open>let message_source = message_event.source;
  if (message_source === null) { message_source = target; }\<close>
\<close>

definition message_source :: "endpoint option \<Rightarrow> message_event \<Rightarrow> endpoint option" where
  "message_source target message_event =
     (case source message_event of None \<Rightarrow> target | Some s \<Rightarrow> Some s)"

text \<open>
  \<open>add_message_event_handlers receiver target target_origin\<close> attaches the two
  listeners below to the receiver; on \<^verbatim>\<open>undefined\<close> the call of
  \<^verbatim>\<open>addEventListener\<close> raises.
\<close>

definition add_message_event_handlers ::
  "endpoint option \<Rightarrow> endpoint option \<Rightarrow> string option \<Rightarrow> unit action" where
  "add_message_event_handlers receiver target target_origin =
     (case receiver of
        None \<Rightarrow> raises (undefined_read ''addEventListener'')
      | Some r \<Rightarrow> performs (AddMessageEventHandlers r target target_origin))"

text \<open>The loop of the \<^verbatim>\<open>receive-file-system-handles\<close> case.\<close>

fun serialize_each ::
  "(string \<Rightarrow> string \<Rightarrow> int) \<Rightarrow> handle list \<Rightarrow> (handle \<times> snapshot) list
     \<Rightarrow> js_error + (handle \<times> snapshot) list" where
  "serialize_each lc [] serialized_file_system_handles = Inr serialized_file_system_handles"
| "serialize_each lc (h # handles) serialized_file_system_handles =
     (case serialize_handle lc h of
        Inl e \<Rightarrow> Inl e
      | Inr serialized \<Rightarrow>
          serialize_each lc handles (serialized_file_system_handles @ [(h, serialized)]))"

definition apostrophe :: string where
  "apostrophe = [CHR 0x27]"

text \<open>The \<^verbatim>\<open>type\<close> values that the \<^verbatim>\<open>switch\<close> has a case for.\<close>

definition recognized_types :: "string list" where
  "recognized_types =
     [''receive-message-port'', ''create-broadcast-channel'', ''receive-file-system-handles'',
      ''receive-serialized-file-system-handles'', ''create-file'', ''create-directory'']"

text \<open>The \<^verbatim>\<open>switch\<close> on an object's \<^verbatim>\<open>type\<close>, case by case.\<close>

definition switch_type ::
  "platform \<Rightarrow> (string \<Rightarrow> string \<Rightarrow> int) \<Rightarrow> string option \<Rightarrow> endpoint option \<Rightarrow> message_data
     \<Rightarrow> unit action" where
  "switch_type pf lc target_origin destination message_data =
     (if type message_data = ''receive-message-port'' then
        then_do (add_message_event_handlers (message_port message_data)
                   (message_port message_data) None)
          (\<lambda>_. case message_port message_data of
                  None \<Rightarrow> raises (undefined_read ''start'')
                | Some port \<Rightarrow> performs (Start port))
      else if type message_data = ''create-broadcast-channel'' then
        (let channel_name = (case broadcast_channel_name message_data of
                               None \<Rightarrow> ''undefined'' | Some n \<Rightarrow> n);
             broadcast_channel = new_BroadcastChannel pf channel_name
         in then_do (performs (NewBroadcastChannel channel_name broadcast_channel))
           (\<lambda>_. then_do (add_message_event_handlers (Some broadcast_channel)
                            (Some broadcast_channel) None)
           (\<lambda>_. postMessage pf destination BroadcastChannelCreated target_origin)))
      else if type message_data = ''receive-file-system-handles'' then
        (case file_system_handles message_data of
           None \<Rightarrow> raises (undefined_read ''length'')
         | Some handles \<Rightarrow>
             then_do (await (serialize_each lc handles []))
               (\<lambda>serialized_file_system_handles.
                  postMessage pf destination
                    (ReceiveSerializedFileSystemHandles serialized_file_system_handles)
                    target_origin))
      else if type message_data = ''receive-serialized-file-system-handles'' then
        returns ()
      else if type message_data = ''create-file'' then
        then_do (await (getSystemDirectory pf))
          (\<lambda>directory. then_do (await (getFile pf directory ''temp-file''))
          (\<lambda>file_handle. then_do (performs (GetFile ''temp-file''))
          (\<lambda>_. postMessage pf destination (ReceiveFile file_handle) target_origin)))
      else if type message_data = ''create-directory'' then
        then_do (await (getSystemDirectory pf))
          (\<lambda>parent_directory.
             then_do (await (getDirectory pf parent_directory ''temp-directory''))
          (\<lambda>directory_handle. then_do (performs (GetDirectory ''temp-directory''))
          (\<lambda>_. postMessage pf destination (ReceiveDirectory directory_handle)
                  target_origin)))
      else raises (Thrown (''Unknown message type: '' @ apostrophe @ type message_data
                           @ apostrophe)))"

text \<open>
  The body of the \<^verbatim>\<open>try\<close> block of the \<^verbatim>\<open>message\<close> listener. Reading
  \<^verbatim>\<open>.type\<close> of \<^verbatim>\<open>null\<close> raises; a string has no \<^verbatim>\<open>type\<close>, so the
  \<^verbatim>\<open>switch\<close> takes its default with \<^verbatim>\<open>undefined\<close>.
\<close>

fun try_message ::
  "platform \<Rightarrow> (string \<Rightarrow> string \<Rightarrow> int) \<Rightarrow> string option \<Rightarrow> endpoint option \<Rightarrow> event_data
     \<Rightarrow> unit action" where
  "try_message pf lc target_origin destination Null =
     raises (TypeError ''Cannot read properties of null (reading type)'')"
| "try_message pf lc target_origin destination (Text s) =
     raises (Thrown (''Unknown message type: '' @ apostrophe @ ''undefined'' @ apostrophe))"
| "try_message pf lc target_origin destination (Data message_data) =
     switch_type pf lc target_origin destination message_data"

text \<open>The \<^verbatim>\<open>catch\<close> block of both listeners:
  \<^verbatim>\<open>message_source.postMessage(`ERROR: ${error}`, target_origin)\<close>.\<close>

definition catch_error ::
  "platform \<Rightarrow> string option \<Rightarrow> endpoint option \<Rightarrow> unit action \<Rightarrow> unit action" where
  "catch_error pf target_origin destination tried =
     (case tried of
        (Inr u, effects) \<Rightarrow> (Inr u, effects)
      | (Inl error, effects) \<Rightarrow>
          (case postMessage pf destination (ErrorText (''ERROR: '' @ error_to_string error))
                  target_origin of
             (r, effects') \<Rightarrow> (r, effects @ effects')))"

text \<open>The \<^verbatim>\<open>message\<close> listener that
  \<open>add_message_event_handlers receiver target target_origin\<close> attaches.\<close>

definition on_message ::
  "platform \<Rightarrow> (string \<Rightarrow> string \<Rightarrow> int) \<Rightarrow> endpoint option \<Rightarrow> string option \<Rightarrow> message_event
     \<Rightarrow> unit action" where
  "on_message pf lc target target_origin message_event =
     (let destination = message_source target message_event
      in catch_error pf target_origin destination
           (try_message pf lc target_origin destination (event_data message_event)))"

definition serialize_message_error_event :: "message_event \<Rightarrow> serialized_message_error_event"
where
  "serialize_message_error_event message_error_event =
     \<lparr>data = event_data message_error_event,
      origin = event_origin message_error_event,
      last_event_id = lastEventId message_error_event,
      has_source = (source message_error_event \<noteq> None),
      ports_length = length (ports message_error_event)\<rparr>"

text \<open>The \<^verbatim>\<open>messageerror\<close> listener.\<close>

definition on_messageerror ::
  "platform \<Rightarrow> endpoint option \<Rightarrow> string option \<Rightarrow> message_event \<Rightarrow> unit action" where
  "on_messageerror pf target target_origin message_event =
     (let destination = message_source target message_event
      in catch_error pf target_origin destination
           (postMessage pf destination
              (SerializedMessageError (serialize_message_error_event message_event))
              target_origin))"

text \<open>Compares the output of \<open>serialize_message_error_event\<close> with an expected
  result.\<close>

definition assert_equals_serialized_message_error_event ::
  "serialized_message_error_event \<Rightarrow> string \<Rightarrow> bool \<Rightarrow> js_error + unit" where
  \<open>assert_equals_serialized_message_error_event serialized_event expected_origin
       expected_has_source =
     and_then (assert_equals (data serialized_event) Null
        ''The message error event must set the "data" property to null.'')
    (and_then (assert_equals (origin serialized_event) expected_origin
        ''The message error event must have the expected "origin" property.'')
    (and_then (assert_equals (last_event_id serialized_event) []
        ''The message error event must set the "lastEventId" property to the empty string.'')
    (and_then (assert_equals (has_source serialized_event) expected_has_source
        ''The message error event must have the expected "source" property.'')
    (assert_equals (ports_length serialized_event) 0
        ''The message error event not contain any message ports.''))))\<close>

text \<open>
  Modelled from the spec: the platform's delivery to a receiver that carries both
  listeners. The spec describes a "TransportDeliveryFailure (structural clone/transfer
  rejected by the platform, surfaced as a delivery-failure event rather than a normal
  reply)": where the payload may be cloned for the receiver the platform raises a
  \<^verbatim>\<open>message\<close> event, and where it may not (a handle sent across origins) it
  raises a \<^verbatim>\<open>messageerror\<close> event in its place.
\<close>

definition deliver ::
  "platform \<Rightarrow> (string \<Rightarrow> string \<Rightarrow> int) \<Rightarrow> endpoint option \<Rightarrow> string option \<Rightarrow> bool
     \<Rightarrow> message_event \<Rightarrow> unit action" where
  "deliver pf lc target target_origin clone_allowed message_event =
     (if clone_allowed then on_message pf lc target target_origin message_event
      else on_messageerror pf target target_origin message_event)"

section \<open>Example handles\<close>

text \<open>Two files and a directory whose enumeration yields \<open>b\<close> before \<open>a\<close>;
  an object that is not a handle; the snapshot of the directory.\<close>

definition example_file_a :: handle where
  "example_file_a = Handle 1 (Some True) (Some False) ''a'' (Inr ''granted'') (Inr ''granted'')
     (Inr ''first'') [] ''[object FileSystemFileHandle]''"

definition example_file_b :: handle where
  "example_file_b = Handle 2 (Some True) (Some False) ''b'' (Inr ''granted'') (Inr ''prompt'')
     (Inr ''second'') [] ''[object FileSystemFileHandle]''"

definition example_subdirectory :: handle where
  "example_subdirectory = Handle 3 (Some False) (Some True) ''sub'' (Inr ''granted'')
     (Inr ''granted'') (Inl (DOMException ''TypeMismatchError'')) []
     ''[object FileSystemDirectoryHandle]''"

definition example_directory :: handle where
  "example_directory = Handle 4 (Some False) (Some True) ''d'' (Inr ''granted'') (Inr ''granted'')
     (Inl (DOMException ''TypeMismatchError''))
     [example_file_b, example_subdirectory, example_file_a]
     ''[object FileSystemDirectoryHandle]''"

definition example_object :: handle where
  "example_object = Handle 5 None None [] (Inr ''granted'') (Inr ''granted'')
     (Inr []) [] ''[object Object]''"

definition example_snapshot_a :: snapshot where
  "example_snapshot_a = Snapshot (Some True) (Some False) ''a'' ''granted'' ''granted''
     (Some ''first'') None None"

definition example_snapshot_b :: snapshot where
  "example_snapshot_b = Snapshot (Some True) (Some False) ''b'' ''granted'' ''prompt''
     (Some ''second'') None None"

definition example_snapshot_sub :: snapshot where
  "example_snapshot_sub = Snapshot (Some False) (Some True) ''sub'' ''granted'' ''granted''
     None (Some []) (Some [])"

definition example_snapshot :: snapshot where
  "example_snapshot = Snapshot (Some False) (Some True) ''d'' ''granted'' ''granted'' None
     (Some [example_snapshot_a, example_snapshot_b]) (Some [example_snapshot_sub])"

text \<open>A file named in upper case, a directory whose enumeration yields it before
  \<open>a\<close>, and the snapshot in which \<open>a\<close> comes first.\<close>

definition example_file_B :: handle where
  "example_file_B = Handle 6 (Some True) (Some False) ''B'' (Inr ''granted'') (Inr ''granted'')
     (Inr ''third'') [] ''[object FileSystemFileHandle]''"

definition example_directory_B_a :: handle where
  "example_directory_B_a = Handle 7 (Some False) (Some True) ''d'' (Inr ''granted'')
     (Inr ''granted'') (Inl (DOMException ''TypeMismatchError''))
     [example_file_B, example_file_a] ''[object FileSystemDirectoryHandle]''"

definition example_snapshot_B :: snapshot where
  "example_snapshot_B = Snapshot (Some True) (Some False) ''B'' ''granted'' ''granted''
     (Some ''third'') None None"

definition example_snapshot_a_B :: snapshot where
  "example_snapshot_a_B = Snapshot (Some False) (Some True) ''d'' ''granted'' ''granted'' None
     (Some [example_snapshot_a, example_snapshot_B]) (Some [])"

text \<open>The same directory snapshot with one file child fewer, and a dictionary that
  is the snapshot of neither kind of handle.\<close>

definition example_snapshot_short :: snapshot where
  "example_snapshot_short = Snapshot (Some False) (Some True) ''d'' ''granted'' ''granted'' None
     (Some [example_snapshot_a]) (Some [example_snapshot_sub])"

text \<open>The directory snapshot under another name, and without its subdirectory.\<close>

definition example_snapshot_renamed :: snapshot where
  "example_snapshot_renamed = Snapshot (Some False) (Some True) ''e'' ''granted'' ''granted'' None
     (Some [example_snapshot_a, example_snapshot_b]) (Some [example_snapshot_sub])"

definition example_snapshot_flat :: snapshot where
  "example_snapshot_flat = Snapshot (Some False) (Some True) ''d'' ''granted'' ''granted'' None
     (Some [example_snapshot_a, example_snapshot_b]) (Some [])"

definition example_snapshot_other :: snapshot where
  "example_snapshot_other = Snapshot None (Some False) ''x'' ''granted'' ''granted''
     None None None"

section \<open>Example messages\<close>

text \<open>A platform on which every call succeeds, and one whose \<^verbatim>\<open>postMessage\<close>
  takes strings only (nothing else can be cloned for the destination).\<close>

definition example_platform :: platform where
  "example_platform =
     \<lparr>new_BroadcastChannel = (\<lambda>n. Endpoint 100),
      getSystemDirectory = Inr example_directory,
      getFile = (\<lambda>d n. Inr example_file_a),
      getDirectory = (\<lambda>d n. Inr example_subdirectory),
      post_rejected = (\<lambda>d m t. None)\<rparr>"

definition strings_only_platform :: platform where
  "strings_only_platform =
     \<lparr>new_BroadcastChannel = (\<lambda>n. Endpoint 100),
      getSystemDirectory = Inr example_directory,
      getFile = (\<lambda>d n. Inr example_file_a),
      getDirectory = (\<lambda>d n. Inr example_subdirectory),
      post_rejected = (\<lambda>d m t. case m of ErrorText s \<Rightarrow> None
                                 | _ \<Rightarrow> Some (DOMException ''DataCloneError''))\<rparr>"

text \<open>An object of an unknown type, sent from a window (the event has a source) and from
  a dedicated worker (it has none); a \<^verbatim>\<open>messageerror\<close> event from each.\<close>

definition example_unknown :: message_data where
  "example_unknown = \<lparr>type = ''bogus'', message_port = None, broadcast_channel_name = None,
     file_system_handles = None\<rparr>"

definition unknown_from_window :: message_event where
  "unknown_from_window =
     MessageEvent (Data example_unknown) ''https://web-platform.test'' [] (Some (Endpoint 3)) []"

definition unknown_from_worker :: message_event where
  "unknown_from_worker = MessageEvent (Data example_unknown) [] [] None []"

definition error_from_window :: message_event where
  "error_from_window =
     MessageEvent Null ''https://web-platform.test'' [] (Some (Endpoint 3)) []"

definition error_from_worker :: message_event where
  "error_from_worker = MessageEvent Null [] [] None []"

section \<open>Driver\<close>






section \<open>Transport\<close>











section \<open>Predicates used in the statements\<close>

definition sorted_by_name :: "(string \<Rightarrow> string \<Rightarrow> int) \<Rightarrow> snapshot list \<Rightarrow> bool" where
  "sorted_by_name lc xs = sorted_wrt (\<lambda>a b. lc (name a) (name b) \<le> 0) xs"

text \<open>The five fields that every snapshot carries agree.\<close>

definition shared_fields_equal :: "snapshot \<Rightarrow> snapshot \<Rightarrow> bool" where
  "shared_fields_equal left right \<longleftrightarrow>
     is_file left = is_file right \<and> is_directory left = is_directory right \<and>
     name left = name right \<and> read_permission left = read_permission right \<and>
     write_permission left = write_permission right"

text \<open>The directory comparator accepts the snapshot against itself.\<close>

definition reflexive_directory :: "snapshot \<Rightarrow> bool" where
  "reflexive_directory s \<longleftrightarrow>
     assert_equals_serialized_file_system_directory_handles s s = Inr ()"

text \<open>Every message among the effects went to the given destination with the given
  target origin.\<close>

definition posts_only_to :: "endpoint option \<Rightarrow> string option \<Rightarrow> effect list \<Rightarrow> bool" where
  "posts_only_to destination target_origin effects \<longleftrightarrow>
     (\<forall>d m t. PostMessage d m t \<in> set effects \<longrightarrow> destination = Some d \<and> t = target_origin)"

text \<open>The string that answers an object of unknown type.\<close>

definition unknown_type_reply :: "message_data \<Rightarrow> message" where
  "unknown_type_reply md =
     ErrorText (''ERROR: Unknown message type: '' @ apostrophe @ type md @ apostrophe)"

section \<open>Properties of the sort\<close>

lemma set_insert_by: "set (insert_by cmp x ys) = insert x (set ys)"
  by (induction ys) auto

lemma set_array_sort: "set (array_sort cmp xs) = set xs"
  unfolding array_sort_def by (induction xs) (simp_all add: set_insert_by)

lemma sorted_insert_by:
  assumes total: "\<And>a b. cmp a b \<le> 0 \<or> cmp b a \<le> 0"
    and trans: "\<And>a b c. cmp a b \<le> 0 \<Longrightarrow> cmp b c \<le> 0 \<Longrightarrow> cmp a c \<le> 0"
  shows "sorted_wrt (\<lambda>a b. cmp a b \<le> 0) ys
    \<Longrightarrow> sorted_wrt (\<lambda>a b. cmp a b \<le> 0) (insert_by cmp x ys)"
proof (induction ys)
  case Nil
  then show ?case by simp
next
  case (Cons y ys)
  show ?case
  proof (cases "cmp x y \<le> 0")
    case True
    with Cons.prems show ?thesis by (auto intro: trans)
  next
    case False
    then have "cmp y x \<le> 0" using total by blast
    with False Cons show ?thesis by (auto simp: set_insert_by)
  qed
qed

lemma sorted_array_sort:
  assumes total: "\<And>a b. cmp a b \<le> 0 \<or> cmp b a \<le> 0"
    and trans: "\<And>a b c. cmp a b \<le> 0 \<Longrightarrow> cmp b c \<le> 0 \<Longrightarrow> cmp a c \<le> 0"
  shows "sorted_wrt (\<lambda>a b. cmp a b \<le> 0) (array_sort cmp xs)"
  unfolding array_sort_def
  by (induction xs) (simp_all add: sorted_insert_by [OF total trans])

lemma sorted_by_name_array_sort:
  assumes "consistent lc"
  shows "sorted_by_name lc (array_sort (by_name lc) xs)"
proof -
  have total: "\<And>a b. by_name lc a b \<le> 0 \<or> by_name lc b a \<le> 0"
    using assms unfolding consistent_def by_name_def by blast
  have trans: "\<And>a b c. by_name lc a b \<le> 0 \<Longrightarrow> by_name lc b c \<le> 0 \<Longrightarrow> by_name lc a c \<le> 0"
    using assms unfolding consistent_def by_name_def by blast
  from sorted_array_sort [of "by_name lc", OF total trans]
  show ?thesis by (simp add: sorted_by_name_def by_name_def)
qed

lemma consistent_lexicographic_compare: "consistent lexicographic_compare"
  unfolding consistent_def lexicographic_compare_def by (auto split: if_splits)

section \<open>Properties of the serializer\<close>

lemma assign_children_sel [simp]:
  "is_file (assign_children s fs ds) = is_file s"
  "is_directory (assign_children s fs ds) = is_directory s"
  "name (assign_children s fs ds) = name s"
  "read_permission (assign_children s fs ds) = read_permission s"
  "write_permission (assign_children s fs ds) = write_permission s"
  "file_contents (assign_children s fs ds) = file_contents s"
  "files (assign_children s fs ds) = Some fs"
  "directories (assign_children s fs ds) = Some ds"
  by (cases s; simp)+

lemma assign_file_contents_sel [simp]:
  "is_file (assign_file_contents s c) = is_file s"
  "is_directory (assign_file_contents s c) = is_directory s"
  "name (assign_file_contents s c) = name s"
  "read_permission (assign_file_contents s c) = read_permission s"
  "write_permission (assign_file_contents s c) = write_permission s"
  "file_contents (assign_file_contents s c) = Some c"
  "files (assign_file_contents s c) = files s"
  "directories (assign_file_contents s c) = directories s"
  by (cases s; simp)+

lemma serialize_file_system_handle_fields:
  "serialize_file_system_handle h = Inr s \<Longrightarrow>
     is_file s = isFile h \<and> is_directory s = isDirectory h \<and> name s = hname h
     \<and> file_contents s = None \<and> files s = None \<and> directories s = None"
  by (auto simp: serialize_file_system_handle_def split: sum.splits)

lemma serialize_directory_shape:
  assumes "serialize_file_system_directory_handle lc h = Inr s"
  obtains fs ds base where
    "serialize_entries lc (getEntries h) [] [] = Inr (fs, ds)"
    "serialize_file_system_handle h = Inr base"
    "s = assign_children base (array_sort (by_name lc) fs) (array_sort (by_name lc) ds)"
  using assms
  by (auto simp: serialize_file_system_directory_handle.simps split: sum.splits)

lemmas example_defs =
  example_file_a_def example_file_b_def example_subdirectory_def example_directory_def
  example_object_def example_snapshot_a_def example_snapshot_b_def example_snapshot_sub_def
  example_snapshot_def example_snapshot_short_def example_snapshot_other_def
  example_snapshot_renamed_def example_snapshot_flat_def
  example_file_B_def example_directory_B_a_def example_snapshot_B_def
  example_snapshot_a_B_def

lemmas serializer_defs =
  serialize_handle.simps serialize_file_system_directory_handle.simps
  serialize_file_system_file_handle_def serialize_file_system_handle_def
  getFileContents_def queryPermission_def array_sort_def by_name_def
  lexicographic_compare_def

lemma serialize_example_directory:
  "serialize_handle lexicographic_compare example_directory = Inr example_snapshot"
  by (simp add: example_defs serializer_defs)

lemma consistent_case_folding_compare: "consistent case_folding_compare"
  unfolding consistent_def case_folding_compare_def by (auto split: if_splits)

lemma case_folding_a_B:
  "case_folding_compare ''a'' ''B'' = - 1" "case_folding_compare ''B'' ''a'' = 1"
  by (simp_all add: case_folding_compare_def fold_case_def)

lemma serialize_example_directory_folding:
  "serialize_handle case_folding_compare example_directory = Inr example_snapshot"
  by (simp add: example_defs serialize_handle.simps
      serialize_file_system_directory_handle.simps serialize_file_system_file_handle_def
      serialize_file_system_handle_def getFileContents_def queryPermission_def array_sort_def
      by_name_def case_folding_compare_def fold_case_def)

lemma serialize_example_directory_B_a:
  "serialize_handle case_folding_compare example_directory_B_a = Inr example_snapshot_a_B"
  by (simp add: example_defs serialize_handle.simps
      serialize_file_system_directory_handle.simps serialize_file_system_file_handle_def
      serialize_file_system_handle_def getFileContents_def queryPermission_def array_sort_def
      by_name_def case_folding_a_B)

text \<open>
  C1, as amended. For every directory handle \<open>D\<close> whose serialization returns a
  snapshot, the \<open>files\<close> and the \<open>directories\<close> of the snapshot are each in
  ascending order of \<open>name\<close> in the order of \<^verbatim>\<open>localeCompare\<close>, the platform's
  collation \<open>lc\<close> (any consistent comparator). \<open>D\<close> is arbitrary, and so is the
  order in which \<open>getEntries D\<close> lists the children. The order is the collation's,
  not the lexicographic order of the strings.
\<close>

theorem serialize_directory_sorted:
  assumes "truthy (isDirectory D)"
    and "consistent lc"
    and "serialize_handle lc D = Inr s"
  shows "\<exists>fs ds. files s = Some fs \<and> directories s = Some ds
           \<and> sorted_by_name lc fs \<and> sorted_by_name lc ds"
proof -
  from assms(1,3) have "serialize_file_system_directory_handle lc D = Inr s"
    by (simp add: serialize_handle.simps)
  then obtain fs ds base where
    "s = assign_children base (array_sort (by_name lc) fs) (array_sort (by_name lc) ds)"
    by (rule serialize_directory_shape)
  with assms(2) show ?thesis
    by (simp add: sorted_by_name_array_sort)
qed

text \<open>The directory whose enumeration yields \<open>b\<close>, a subdirectory, then \<open>a\<close>
  serializes with \<open>a\<close> before \<open>b\<close>, under either comparator.\<close>

theorem serialize_directory_sorted_witness:
  "truthy (isDirectory example_directory)
   \<and> consistent case_folding_compare
   \<and> serialize_handle case_folding_compare example_directory = Inr example_snapshot
   \<and> serialize_handle lexicographic_compare example_directory = Inr example_snapshot
   \<and> (\<exists>fs ds. files example_snapshot = Some fs \<and> directories example_snapshot = Some ds
         \<and> sorted_by_name case_folding_compare fs \<and> sorted_by_name case_folding_compare ds)
   \<and> map name (the (files example_snapshot)) = [''a'', ''b'']"
proof -
  have d: "truthy (isDirectory example_directory)"
    by (simp add: example_directory_def)
  have n: "map name (the (files example_snapshot)) = [''a'', ''b'']"
    by (simp add: example_defs)
  from serialize_directory_sorted
    [OF d consistent_case_folding_compare serialize_example_directory_folding]
  show ?thesis
    using consistent_case_folding_compare d serialize_example_directory_folding
      serialize_example_directory n
    by simp
qed

text \<open>
  The wording of the spec does not hold: where the collation puts \<open>a\<close> before
  \<open>B\<close>, the directory that holds the files \<open>B\<close> and \<open>a\<close> serializes with
  \<open>a\<close> first, and these names are not in lexicographic order (\<open>B\<close> is the
  smaller string).
\<close>

theorem serialize_directory_not_lexicographic:
  "truthy (isDirectory example_directory_B_a)
   \<and> consistent case_folding_compare
   \<and> serialize_handle case_folding_compare example_directory_B_a = Inr example_snapshot_a_B
   \<and> map name (the (files example_snapshot_a_B)) = [''a'', ''B'']
   \<and> \<not> sorted (map name (the (files example_snapshot_a_B)))"
  using consistent_case_folding_compare serialize_example_directory_B_a
  by (simp add: example_defs)

text \<open>
  C6, as amended. For every object that is neither a directory handle nor a file handle
  (\<^verbatim>\<open>isDirectory\<close> and \<^verbatim>\<open>isFile\<close> both false or absent),
  \<open>serialize_handle\<close> returns no snapshot: it throws the string
  \<^verbatim>\<open>Object is not a FileSystemFileHandle or FileSystemDirectoryHandle\<close> followed by
  the object's printed form. What is thrown is a string, not a \<^verbatim>\<open>TypeError\<close>.
\<close>

theorem serialize_handle_rejects_other_objects:
  assumes "\<not> truthy (isDirectory h)" and "\<not> truthy (isFile h)"
  shows "serialize_handle lc h =
     Inl (Thrown (''Object is not a FileSystemFileHandle or FileSystemDirectoryHandle '' @
                  to_string h))"
  using assms by (simp add: serialize_handle.simps)

theorem serialize_handle_rejects_other_objects_witness:
  "\<not> truthy (isDirectory example_object) \<and> \<not> truthy (isFile example_object)
   \<and> serialize_handle lexicographic_compare example_object =
     Inl (Thrown ''Object is not a FileSystemFileHandle or FileSystemDirectoryHandle [object Object]'')"
proof -
  have d: "\<not> truthy (isDirectory example_object)" and f: "\<not> truthy (isFile example_object)"
    by (simp_all add: example_object_def)
  from serialize_handle_rejects_other_objects [OF d f, of lexicographic_compare]
  show ?thesis using d f by (simp add: example_object_def)
qed

text \<open>The wording of the spec does not hold: on an object that is no handle the
  serializer does not fail with a \<^verbatim>\<open>TypeError\<close>.\<close>

theorem serialize_handle_no_TypeError:
  "\<not> truthy (isDirectory example_object) \<and> \<not> truthy (isFile example_object)
   \<and> (\<nexists>m. serialize_handle lexicographic_compare example_object = Inl (TypeError m))"
  by (simp add: example_object_def serialize_handle.simps)

section \<open>Properties of the comparator\<close>

lemma and_then_Inr [simp]: "and_then (Inr u) rest = rest"
  by (simp add: and_then_def)

lemma and_then_Inl [simp]: "and_then (Inl e) rest = Inl e"
  by (simp add: and_then_def)

lemma and_then_eq_Inr: "and_then first rest = Inr v \<longleftrightarrow> first = Inr () \<and> rest = Inr v"
  by (cases first) simp_all

lemma assert_equals_eq_Inr [simp]: "assert_equals a b d = Inr () \<longleftrightarrow> a = b"
  by (simp add: assert_equals_def)

lemma assert_equals_refl [simp]: "assert_equals a a d = Inr ()"
  by (simp add: assert_equals_def)

lemma assert_equals_differ: "a \<noteq> b \<Longrightarrow> assert_equals a b d = Inl (AssertionError d)"
  by (simp add: assert_equals_def)

lemma shared_eq_Inr:
  "assert_equals_serialized_file_system_handles left right = Inr ()
     \<longleftrightarrow> shared_fields_equal left right"
  by (auto simp: assert_equals_serialized_file_system_handles_def and_then_eq_Inr
      shared_fields_equal_def)

lemma file_eq_Inr:
  "assert_equals_serialized_file_system_file_handles left right = Inr () \<longleftrightarrow>
     shared_fields_equal left right \<and> file_contents left = file_contents right"
  by (simp add: assert_equals_serialized_file_system_file_handles_def and_then_eq_Inr
      shared_eq_Inr)

text \<open>Over arrays of one length, each loop succeeds exactly when every pair of
  elements at one index compares equal.\<close>

lemma files_loop_pairwise:
  "length ls = length rs \<Longrightarrow>
   files_loop ls rs = Inr () \<longleftrightarrow>
     (\<forall>i<length ls.
        assert_equals_serialized_file_system_file_handles (ls ! i) (rs ! i) = Inr ())"
proof (induction ls rs rule: list_induct2)
  case Nil
  then show ?case by simp
next
  case (Cons l ls r rs)
  then show ?case by (simp add: and_then_eq_Inr All_less_Suc2)
qed

lemma directories_loop_pairwise:
  "length ls = length rs \<Longrightarrow>
   directories_loop ls rs = Inr () \<longleftrightarrow>
     (\<forall>i<length ls.
        assert_equals_serialized_file_system_directory_handles (ls ! i) (rs ! i) = Inr ())"
proof (induction ls rs rule: list_induct2)
  case Nil
  then show ?case by simp
next
  case (Cons l ls r rs)
  then show ?case by (simp add: and_then_eq_Inr All_less_Suc2)
qed

lemma directory_eq_Inr:
  "assert_equals_serialized_file_system_directory_handles left right = Inr () \<longleftrightarrow>
     shared_fields_equal left right \<and>
     (\<exists>lf rf. files left = Some lf \<and> files right = Some rf \<and> length lf = length rf \<and>
        (\<forall>i<length lf.
           assert_equals_serialized_file_system_file_handles (lf ! i) (rf ! i) = Inr ())) \<and>
     (\<exists>ld rd. directories left = Some ld \<and> directories right = Some rd \<and>
        length ld = length rd \<and>
        (\<forall>i<length ld.
           assert_equals_serialized_file_system_directory_handles (ld ! i) (rd ! i) = Inr ()))"
  by (simp add: assert_equals_serialized_file_system_directory_handles.simps and_then_eq_Inr
      shared_eq_Inr files_loop_pairwise directories_loop_pairwise split: option.split
      cong: conj_cong)

lemma directory_shared_first:
  assumes "\<not> shared_fields_equal left right"
  shows "assert_equals_serialized_file_system_directory_handles left right =
     assert_equals_serialized_file_system_handles left right"
proof -
  from assms obtain e where "assert_equals_serialized_file_system_handles left right = Inl e"
    using shared_eq_Inr [of left right]
    by (cases "assert_equals_serialized_file_system_handles left right") auto
  then show ?thesis
    by (simp add: assert_equals_serialized_file_system_directory_handles.simps)
qed

lemma directory_files_length:
  assumes "shared_fields_equal left right" "files left = Some lf" "files right = Some rf"
    "length lf \<noteq> length rf"
  shows "assert_equals_serialized_file_system_directory_handles left right =
    Inl (AssertionError
      ''Each FileSystemDirectoryHandle must contain the same number of file children'')"
  using assms shared_eq_Inr [of left right]
  by (simp add: assert_equals_serialized_file_system_directory_handles.simps
      assert_equals_differ)

lemma directory_directories_length:
  assumes "shared_fields_equal left right" "files left = Some lf" "files right = Some rf"
    "length lf = length rf" "files_loop lf rf = Inr ()"
    "directories left = Some ld" "directories right = Some rd" "length ld \<noteq> length rd"
  shows "assert_equals_serialized_file_system_directory_handles left right =
    Inl (AssertionError
      ''Each FileSystemDirectoryHandle must contain the same number of directory children'')"
  using assms shared_eq_Inr [of left right]
  by (simp add: assert_equals_serialized_file_system_directory_handles.simps
      assert_equals_differ)

lemmas comparator_defs =
  assert_equals_serialized_handles_def
  assert_equals_serialized_file_system_directory_handles.simps
  assert_equals_serialized_file_system_file_handles_def
  assert_equals_serialized_file_system_handles_def assert_equals_def

text \<open>
  C9. When \<open>left\<close> is a directory snapshot, the comparison returns exactly when
  the shared fields agree, both \<open>files\<close> arrays exist with one length and compare
  equal index by index under the file comparator, and both \<open>directories\<close> arrays
  exist with one length and compare equal index by index under the directory
  comparator. The shared fields are compared first (when they disagree the outcome is
  that of the shared-field comparison); then a difference in the number of file
  children fails with the message that names the file children, whatever the children
  and the directories are; then, the files having compared equal, a difference in the
  number of directory children fails with the message that names them. When \<open>left\<close>
  is a file snapshot, the comparison returns exactly when the shared fields and
  \<open>file_contents\<close> agree.
\<close>

theorem comparator_dispatch:
  "(truthy (is_directory left) \<longrightarrow>
      (assert_equals_serialized_handles g left right = Inr () \<longleftrightarrow>
         shared_fields_equal left right \<and>
         (\<exists>lf rf. files left = Some lf \<and> files right = Some rf \<and> length lf = length rf \<and>
            (\<forall>i<length lf.
               assert_equals_serialized_file_system_file_handles (lf ! i) (rf ! i) = Inr ())) \<and>
         (\<exists>ld rd. directories left = Some ld \<and> directories right = Some rd \<and>
            length ld = length rd \<and>
            (\<forall>i<length ld.
               assert_equals_serialized_file_system_directory_handles (ld ! i) (rd ! i)
                 = Inr ())))
      \<and> (\<not> shared_fields_equal left right \<longrightarrow>
           assert_equals_serialized_handles g left right =
             assert_equals_serialized_file_system_handles left right)
      \<and> (\<forall>lf rf. shared_fields_equal left right \<and> files left = Some lf \<and>
             files right = Some rf \<and> length lf \<noteq> length rf \<longrightarrow>
           assert_equals_serialized_handles g left right = Inl (AssertionError
             ''Each FileSystemDirectoryHandle must contain the same number of file children''))
      \<and> (\<forall>lf rf ld rd. shared_fields_equal left right \<and> files left = Some lf \<and>
             files right = Some rf \<and> length lf = length rf \<and> files_loop lf rf = Inr () \<and>
             directories left = Some ld \<and> directories right = Some rd \<and>
             length ld \<noteq> length rd \<longrightarrow>
           assert_equals_serialized_handles g left right = Inl (AssertionError
             ''Each FileSystemDirectoryHandle must contain the same number of directory children'')))
   \<and> (\<not> truthy (is_directory left) \<and> truthy (is_file left) \<longrightarrow>
        (assert_equals_serialized_handles g left right = Inr () \<longleftrightarrow>
           shared_fields_equal left right \<and> file_contents left = file_contents right))"
proof (intro conjI impI allI)
  assume "truthy (is_directory left)"
  then have d: "assert_equals_serialized_handles g left right =
      assert_equals_serialized_file_system_directory_handles left right"
    by (simp add: assert_equals_serialized_handles_def)
  show "assert_equals_serialized_handles g left right = Inr () \<longleftrightarrow>
         shared_fields_equal left right \<and>
         (\<exists>lf rf. files left = Some lf \<and> files right = Some rf \<and> length lf = length rf \<and>
            (\<forall>i<length lf.
               assert_equals_serialized_file_system_file_handles (lf ! i) (rf ! i) = Inr ())) \<and>
         (\<exists>ld rd. directories left = Some ld \<and> directories right = Some rd \<and>
            length ld = length rd \<and>
            (\<forall>i<length ld.
               assert_equals_serialized_file_system_directory_handles (ld ! i) (rd ! i)
                 = Inr ()))"
    unfolding d by (rule directory_eq_Inr)
  show "assert_equals_serialized_handles g left right =
      assert_equals_serialized_file_system_handles left right"
    if "\<not> shared_fields_equal left right"
    unfolding d using that by (rule directory_shared_first)
  show "assert_equals_serialized_handles g left right = Inl (AssertionError
      ''Each FileSystemDirectoryHandle must contain the same number of file children'')"
    if "shared_fields_equal left right \<and> files left = Some lf \<and>
        files right = Some rf \<and> length lf \<noteq> length rf" for lf rf
    unfolding d using that by (auto intro: directory_files_length)
  show "assert_equals_serialized_handles g left right = Inl (AssertionError
      ''Each FileSystemDirectoryHandle must contain the same number of directory children'')"
    if "shared_fields_equal left right \<and> files left = Some lf \<and>
        files right = Some rf \<and> length lf = length rf \<and> files_loop lf rf = Inr () \<and>
        directories left = Some ld \<and> directories right = Some rd \<and>
        length ld \<noteq> length rd" for lf rf ld rd
    unfolding d using that by (auto intro: directory_directories_length)
next
  assume "\<not> truthy (is_directory left) \<and> truthy (is_file left)"
  then have "assert_equals_serialized_handles g left right =
      assert_equals_serialized_file_system_file_handles left right"
    by (simp add: assert_equals_serialized_handles_def)
  then show "assert_equals_serialized_handles g left right = Inr () \<longleftrightarrow>
      shared_fields_equal left right \<and> file_contents left = file_contents right"
    by (simp add: file_eq_Inr)
qed

text \<open>A directory snapshot against itself, against itself under another name, with a
  file child fewer and without its subdirectory; a file snapshot against another
  file's.\<close>

theorem comparator_dispatch_witness:
  \<open>truthy (is_directory example_snapshot)
   \<and> assert_equals_serialized_handles None example_snapshot example_snapshot = Inr ()
   \<and> \<not> shared_fields_equal example_snapshot example_snapshot_renamed
   \<and> assert_equals_serialized_handles None example_snapshot example_snapshot_renamed =
       Inl (AssertionError
         ''Each FileSystemHandle instance must use the expected "name"  property.'')
   \<and> shared_fields_equal example_snapshot example_snapshot_short
   \<and> assert_equals_serialized_handles None example_snapshot example_snapshot_short =
       Inl (AssertionError
         ''Each FileSystemDirectoryHandle must contain the same number of file children'')
   \<and> shared_fields_equal example_snapshot example_snapshot_flat
   \<and> assert_equals_serialized_handles None example_snapshot example_snapshot_flat =
       Inl (AssertionError
         ''Each FileSystemDirectoryHandle must contain the same number of directory children'')
   \<and> \<not> truthy (is_directory example_snapshot_a) \<and> truthy (is_file example_snapshot_a)
   \<and> \<not> shared_fields_equal example_snapshot_a example_snapshot_b
   \<and> assert_equals_serialized_handles None example_snapshot_a example_snapshot_b \<noteq> Inr ()\<close>
proof -
  let ?fs = "[example_snapshot_a, example_snapshot_b]"
  have d: "truthy (is_directory example_snapshot)"
    and s: "shared_fields_equal example_snapshot example_snapshot"
      "shared_fields_equal example_snapshot example_snapshot_short"
      "shared_fields_equal example_snapshot example_snapshot_flat"
    and r: "\<not> shared_fields_equal example_snapshot example_snapshot_renamed"
    and fl: "files example_snapshot = Some ?fs"
      "files example_snapshot_short = Some [example_snapshot_a]"
      "files example_snapshot_flat = Some ?fs"
    and dl: "directories example_snapshot = Some [example_snapshot_sub]"
      "directories example_snapshot_flat = Some []"
    and f: "\<not> truthy (is_directory example_snapshot_a)" "truthy (is_file example_snapshot_a)"
    and n: "\<not> shared_fields_equal example_snapshot_a example_snapshot_b"
    by (simp_all add: example_defs shared_fields_equal_def)
  have loop: "files_loop ?fs ?fs = Inr ()"
    by (simp add: example_defs comparator_defs)
  have fsame: "\<forall>i<length ?fs.
      assert_equals_serialized_file_system_file_handles (?fs ! i) (?fs ! i) = Inr ()"
    by (simp add: file_eq_Inr shared_fields_equal_def)
  have dsame: "\<forall>i<length [example_snapshot_sub].
      assert_equals_serialized_file_system_directory_handles
        ([example_snapshot_sub] ! i) ([example_snapshot_sub] ! i) = Inr ()"
    by (simp add: example_defs comparator_defs)
  note inst = comparator_dispatch [of example_snapshot None]
  from inst [of example_snapshot] d s(1) fl(1) dl(1) fsame dsame
  have same: "assert_equals_serialized_handles None example_snapshot example_snapshot = Inr ()"
    by blast
  from inst [of example_snapshot_renamed] d r
  have "assert_equals_serialized_handles None example_snapshot example_snapshot_renamed =
      assert_equals_serialized_file_system_handles example_snapshot example_snapshot_renamed"
    by blast
  then have renamed:
    \<open>assert_equals_serialized_handles None example_snapshot example_snapshot_renamed =
       Inl (AssertionError
         ''Each FileSystemHandle instance must use the expected "name"  property.'')\<close>
    by (simp add: example_defs comparator_defs)
  from inst [of example_snapshot_short] d s(2) fl(1,2)
  have short: "assert_equals_serialized_handles None example_snapshot example_snapshot_short =
       Inl (AssertionError
         ''Each FileSystemDirectoryHandle must contain the same number of file children'')"
    by simp
  from inst [of example_snapshot_flat] d s(3) fl(1,3) dl loop
  have flat: "assert_equals_serialized_handles None example_snapshot example_snapshot_flat =
       Inl (AssertionError
         ''Each FileSystemDirectoryHandle must contain the same number of directory children'')"
    by simp
  from comparator_dispatch [of example_snapshot_a None example_snapshot_b] f n
  have "assert_equals_serialized_handles None example_snapshot_a example_snapshot_b \<noteq> Inr ()"
    by simp
  with d same r renamed s short flat f n show ?thesis by simp
qed

subsection \<open>Reflexivity on the serializer's output\<close>

lemma shared_refl: "assert_equals_serialized_file_system_handles s s = Inr ()"
  by (simp add: shared_eq_Inr shared_fields_equal_def)

lemma file_refl: "assert_equals_serialized_file_system_file_handles s s = Inr ()"
  by (simp add: file_eq_Inr shared_fields_equal_def)

lemma files_loop_refl: "files_loop xs xs = Inr ()"
  by (induction xs) (simp_all add: file_refl)

lemma directories_loop_refl:
  "(\<And>d. d \<in> set ds \<Longrightarrow>
      assert_equals_serialized_file_system_directory_handles d d = Inr ())
   \<Longrightarrow> directories_loop ds ds = Inr ()"
  by (induction ds) simp_all

lemma directory_refl:
  assumes "files s = Some fs" and "directories s = Some ds"
    and "\<And>d. d \<in> set ds \<Longrightarrow>
           assert_equals_serialized_file_system_directory_handles d d = Inr ()"
  shows "assert_equals_serialized_file_system_directory_handles s s = Inr ()"
  using assms
  by (simp add: assert_equals_serialized_file_system_directory_handles.simps shared_refl
      files_loop_refl directories_loop_refl)

text \<open>
  By induction along the calls of the serializer: a snapshot has the kind flags of its
  handle, the snapshot of a directory is accepted against itself by the directory
  comparator, and the loop only ever pushes such snapshots to the array of directories.
\<close>

lemma serialize_reflexive_aux:
  "(\<forall>s. serialize_handle lc h = Inr s \<longrightarrow>
      is_directory s = isDirectory h \<and> is_file s = isFile h \<and>
      (truthy (isDirectory h) \<longrightarrow> reflexive_directory s))"
  "(\<forall>s. serialize_file_system_directory_handle lc h = Inr s \<longrightarrow>
      is_directory s = isDirectory h \<and> is_file s = isFile h \<and> reflexive_directory s)"
  "(\<forall>fs' ds'. serialize_entries lc hs fs ds = Inr (fs', ds') \<longrightarrow>
      (\<forall>d\<in>set ds. reflexive_directory d) \<longrightarrow> (\<forall>d\<in>set ds'. reflexive_directory d))"
proof (induction lc h and lc h and lc hs fs ds
    rule: serialize_handle_serialize_file_system_directory_handle_serialize_entries.induct)
  case (1 lc handle)
  then show ?case
    by (auto simp: serialize_handle.simps serialize_file_system_file_handle_def
        dest!: serialize_file_system_handle_fields split: sum.splits)
next
  case (2 lc directory_handle)
  show ?case
  proof (intro allI impI)
    fix s assume "serialize_file_system_directory_handle lc directory_handle = Inr s"
    then obtain fs ds base where
      e: "serialize_entries lc (getEntries directory_handle) [] [] = Inr (fs, ds)"
      and b: "serialize_file_system_handle directory_handle = Inr base"
      and s_def: "s = assign_children base (array_sort (by_name lc) fs)
                        (array_sort (by_name lc) ds)"
      by (rule serialize_directory_shape)
    from 2 e have all: "\<forall>d\<in>set ds. reflexive_directory d" by simp
    have "reflexive_directory s"
      unfolding reflexive_directory_def s_def
    proof (rule directory_refl)
      show "files (assign_children base (array_sort (by_name lc) fs)
                (array_sort (by_name lc) ds)) = Some (array_sort (by_name lc) fs)"
        by simp
      show "directories (assign_children base (array_sort (by_name lc) fs)
                (array_sort (by_name lc) ds)) = Some (array_sort (by_name lc) ds)"
        by simp
      fix d assume "d \<in> set (array_sort (by_name lc) ds)"
      with all show "assert_equals_serialized_file_system_directory_handles d d = Inr ()"
        by (simp add: set_array_sort reflexive_directory_def)
    qed
    with b s_def show "is_directory s = isDirectory directory_handle \<and>
        is_file s = isFile directory_handle \<and> reflexive_directory s"
      by (auto dest: serialize_file_system_handle_fields)
  qed
next
  case (3 lc serialized_files serialized_directories)
  then show ?case by simp
next
  case (4 lc child_handle rest serialized_files serialized_directories)
  show ?case
  proof (intro allI impI)
    fix fs' ds'
    assume r: "serialize_entries lc (child_handle # rest) serialized_files
                 serialized_directories = Inr (fs', ds')"
      and inv: "\<forall>d\<in>set serialized_directories. reflexive_directory d"
    from r obtain sc where sc: "serialize_handle lc child_handle = Inr sc"
      by (auto split: sum.splits)
    show "\<forall>d\<in>set ds'. reflexive_directory d"
    proof (cases "truthy (isDirectory child_handle)")
      case True
      with r sc have "serialize_entries lc rest serialized_files
          (serialized_directories @ [sc]) = Inr (fs', ds')"
        by simp
      with "4.IH"(2) [OF sc True]
      have step: "(\<forall>d\<in>set (serialized_directories @ [sc]). reflexive_directory d)
          \<longrightarrow> (\<forall>d\<in>set ds'. reflexive_directory d)"
        by blast
      from "4.IH"(1) sc True have "reflexive_directory sc" by simp
      with inv step show ?thesis by simp
    next
      case False
      with r sc have "serialize_entries lc rest (serialized_files @ [sc])
          serialized_directories = Inr (fs', ds')"
        by simp
      with "4.IH"(3) [OF sc False]
      have "(\<forall>d\<in>set serialized_directories. reflexive_directory d)
          \<longrightarrow> (\<forall>d\<in>set ds'. reflexive_directory d)"
        by blast
      with inv show ?thesis by simp
    qed
  qed
qed

lemma serialized_compares_equal_to_itself:
  assumes "serialize_handle lc h = Inr s"
  shows "assert_equals_serialized_handles g s s = Inr ()"
proof -
  from assms have kind: "truthy (isDirectory h) \<or> truthy (isFile h)"
    by (auto simp: serialize_handle.simps split: if_splits)
  from serialize_reflexive_aux(1) [of lc h] assms
  have "is_directory s = isDirectory h" "is_file s = isFile h"
    "truthy (isDirectory h) \<Longrightarrow> reflexive_directory s" by auto
  with kind show ?thesis
    by (auto simp: assert_equals_serialized_handles_def reflexive_directory_def file_refl)
qed

text \<open>
  C5. For every handle \<open>H\<close> that the serializer turns into a snapshot (so \<open>H\<close> is a
  file or a directory, and so are the children it is asked to serialize), comparing the
  snapshot with itself returns normally, whatever the global scope holds.
\<close>

theorem snapshot_comparison_reflexive:
  "serialize_handle lc H = Inr s \<Longrightarrow> assert_equals_serialized_handles g s s = Inr ()"
  by (rule serialized_compares_equal_to_itself)

theorem snapshot_comparison_reflexive_witness:
  "serialize_handle lexicographic_compare example_directory = Inr example_snapshot
   \<and> assert_equals_serialized_handles None example_snapshot example_snapshot = Inr ()"
  using snapshot_comparison_reflexive [OF serialize_example_directory, of None]
    serialize_example_directory
  by simp

text \<open>
  C10. When \<open>left\<close> has neither \<open>is_directory\<close> nor \<open>is_file\<close> set (false or
  absent), the comparison returns normally for no \<open>right\<close>, whatever the global
  scope holds; and where no script has declared a global \<^verbatim>\<open>handle\<close>, it raises
  \<^verbatim>\<open>ReferenceError\<close>, so the message about an object that is no handle is
  never thrown.
\<close>

theorem comparison_of_other_object_raises_ReferenceError:
  assumes "\<not> truthy (is_directory left)" and "\<not> truthy (is_file left)"
  shows "assert_equals_serialized_handles g left right \<noteq> Inr ()
     \<and> assert_equals_serialized_handles None left right =
         Inl (ReferenceError ''handle is not defined'')"
  using assms by (simp add: assert_equals_serialized_handles_def split: option.split)

theorem comparison_of_other_object_raises_ReferenceError_witness:
  "\<not> truthy (is_directory example_snapshot_other) \<and> \<not> truthy (is_file example_snapshot_other)
   \<and> assert_equals_serialized_handles None example_snapshot_other example_snapshot_other =
       Inl (ReferenceError ''handle is not defined'')"
proof -
  have d: "\<not> truthy (is_directory example_snapshot_other)"
    and f: "\<not> truthy (is_file example_snapshot_other)"
    by (simp_all add: example_defs)
  from comparison_of_other_object_raises_ReferenceError
    [OF d f, of None example_snapshot_other]
  show ?thesis using d f by simp
qed

section \<open>Properties of the router\<close>

lemmas message_defs =
  example_platform_def strings_only_platform_def example_unknown_def
  unknown_from_window_def unknown_from_worker_def error_from_window_def
  error_from_worker_def

lemmas router_defs =
  on_message_def on_messageerror_def Let_def message_source_def switch_type_def
  catch_error_def postMessage_def raises_def returns_def performs_def await_def
  then_do_def add_message_event_handlers_def recognized_types_def apostrophe_def
  serialize_message_error_event_def

lemma posts_only_to_Nil [simp]: "posts_only_to D T []"
  by (simp add: posts_only_to_def)

lemma posts_only_to_append [simp]:
  "posts_only_to D T (xs @ ys) \<longleftrightarrow> posts_only_to D T xs \<and> posts_only_to D T ys"
  by (auto simp: posts_only_to_def)

lemma posts_postMessage: "posts_only_to D T (snd (postMessage pf D m T))"
  by (auto simp: postMessage_def raises_def performs_def posts_only_to_def split: option.splits)

lemma posts_then_do:
  assumes "posts_only_to D T (snd first)" and "\<And>x. posts_only_to D T (snd (rest x))"
  shows "posts_only_to D T (snd (then_do first rest))"
proof (cases first)
  case (Pair r effects)
  show ?thesis
  proof (cases r)
    case (Inl e)
    with Pair assms(1) show ?thesis by (simp add: then_do_def)
  next
    case (Inr x)
    obtain r' effects' where k: "rest x = (r', effects')" by (cases "rest x")
    with assms(2) [of x] have "posts_only_to D T effects'" by simp
    with Pair Inr k assms(1) show ?thesis by (simp add: then_do_def)
  qed
qed

lemma posts_simple [simp]:
  "posts_only_to D T (snd (raises e))"
  "posts_only_to D T (snd (returns x))"
  "posts_only_to D T (snd (await r))"
  "posts_only_to D T (snd (performs (Start p)))"
  "posts_only_to D T (snd (performs (NewBroadcastChannel n c)))"
  "posts_only_to D T (snd (performs (GetFile n)))"
  "posts_only_to D T (snd (performs (GetDirectory n)))"
  "posts_only_to D T (snd (add_message_event_handlers rcv tg tg'))"
  by (auto simp: raises_def returns_def await_def performs_def posts_only_to_def
      add_message_event_handlers_def split: option.splits)

lemma posts_switch_type: "posts_only_to D T (snd (switch_type pf lc T D md))"
  unfolding switch_type_def Let_def
  by (auto intro!: posts_then_do posts_postMessage split: option.splits)

lemma posts_try_message: "posts_only_to D T (snd (try_message pf lc T D ed))"
  by (cases ed) (simp_all add: posts_switch_type)

lemma posts_catch_error:
  assumes "posts_only_to D T (snd tried)"
  shows "posts_only_to D T (snd (catch_error pf T D tried))"
proof (cases tried)
  case (Pair r effects)
  show ?thesis
  proof (cases r)
    case (Inl e)
    obtain r' effects' where
      k: "postMessage pf D (ErrorText (''ERROR: '' @ error_to_string e)) T = (r', effects')"
      by (cases "postMessage pf D (ErrorText (''ERROR: '' @ error_to_string e)) T")
    with posts_postMessage [of D T pf "ErrorText (''ERROR: '' @ error_to_string e)"]
    have "posts_only_to D T effects'" by simp
    with Pair Inl k assms show ?thesis by (simp add: catch_error_def)
  next
    case (Inr x)
    with Pair assms show ?thesis by (simp add: catch_error_def)
  qed
qed

lemma posts_on_message:
  "posts_only_to (message_source target ev) T (snd (on_message pf lc target T ev))"
  by (simp add: on_message_def Let_def posts_catch_error posts_try_message)

lemma posts_on_messageerror:
  "posts_only_to (message_source target ev) T (snd (on_messageerror pf target T ev))"
  by (simp add: on_messageerror_def Let_def posts_catch_error posts_postMessage)

lemma unknown_switch:
  "type md \<notin> set recognized_types \<Longrightarrow>
   switch_type pf lc T D md =
     raises (Thrown (''Unknown message type: '' @ apostrophe @ type md @ apostrophe))"
  by (simp add: switch_type_def recognized_types_def)

lemma catch_error_raises:
  "catch_error pf T D (raises e) = postMessage pf D (ErrorText (''ERROR: '' @ error_to_string e)) T"
  by (cases "postMessage pf D (ErrorText (''ERROR: '' @ error_to_string e)) T")
     (simp add: catch_error_def raises_def)

lemma postMessage_accepted:
  "post_rejected pf d m T = None \<Longrightarrow>
   postMessage pf (Some d) m T = (Inr (), [PostMessage d m T])"
  by (simp add: postMessage_def performs_def)

lemma catch_error_caught:
  assumes "fst tried = Inl e"
    and "post_rejected pf d (ErrorText (''ERROR: '' @ error_to_string e)) T = None"
  shows "catch_error pf T (Some d) tried =
    (Inr (), snd tried @ [PostMessage d (ErrorText (''ERROR: '' @ error_to_string e)) T])"
  using assms by (cases tried) (simp add: catch_error_def postMessage_accepted)

lemma on_message_unknown:
  assumes "type md \<notin> set recognized_types"
  shows "on_message pf lc target T (MessageEvent (Data md) org lid src ps) =
     postMessage pf (message_source target (MessageEvent (Data md) org lid src ps))
       (ErrorText (''ERROR: Unknown message type: '' @ apostrophe @ type md @ apostrophe)) T"
  using assms by (simp add: on_message_def Let_def unknown_switch catch_error_raises)

lemma serialized_event_verified:
  "assert_equals_serialized_message_error_event s eo ehs = Inr () \<longleftrightarrow>
     data s = Null \<and> origin s = eo \<and> last_event_id s = [] \<and> has_source s = ehs \<and>
     ports_length s = 0"
  by (simp add: assert_equals_serialized_message_error_event_def and_then_eq_Inr)

lemma postMessage_effects:
  "snd (postMessage pf D m T) = [] \<or>
   (\<exists>d. D = Some d \<and> snd (postMessage pf D m T) = [PostMessage d m T])"
  by (auto simp: postMessage_def raises_def performs_def split: option.splits)

text \<open>
  C7. Both listeners reply to the event's source when the event has one, and otherwise
  to the target that \<open>add_message_event_handlers\<close> was given. Every message that an
  invocation posts goes to that destination with the configured target origin; each
  listener is its \<^verbatim>\<open>try\<close> block and its \<^verbatim>\<open>catch\<close> block run with that
  destination; and the reply to an unknown type, and the report of a delivery failure,
  is posted to the target when the event has no source and to the source when it has
  one.
\<close>

theorem replies_go_to_resolved_destination:
  "(\<forall>d m t. PostMessage d m t \<in> set (snd (on_message pf lc target target_origin ev)) \<longrightarrow>
      (source ev = Some d \<or> (source ev = None \<and> target = Some d)) \<and> t = target_origin)
   \<and> (\<forall>d m t. PostMessage d m t \<in> set (snd (on_messageerror pf target target_origin ev)) \<longrightarrow>
      (source ev = Some d \<or> (source ev = None \<and> target = Some d)) \<and> t = target_origin)
   \<and> on_message pf lc target target_origin ev =
       catch_error pf target_origin (case source ev of None \<Rightarrow> target | Some s \<Rightarrow> Some s)
         (try_message pf lc target_origin
            (case source ev of None \<Rightarrow> target | Some s \<Rightarrow> Some s) (event_data ev))
   \<and> on_messageerror pf target target_origin ev =
       catch_error pf target_origin (case source ev of None \<Rightarrow> target | Some s \<Rightarrow> Some s)
         (postMessage pf (case source ev of None \<Rightarrow> target | Some s \<Rightarrow> Some s)
            (SerializedMessageError (serialize_message_error_event ev)) target_origin)
   \<and> (source ev = None \<and> target = Some d \<and> event_data ev = Data md \<and>
        type md \<notin> set recognized_types \<and>
        post_rejected pf d (unknown_type_reply md) target_origin = None \<longrightarrow>
      on_message pf lc target target_origin ev =
        (Inr (), [PostMessage d (unknown_type_reply md) target_origin]))
   \<and> (source ev = Some d \<and> event_data ev = Data md \<and>
        type md \<notin> set recognized_types \<and>
        post_rejected pf d (unknown_type_reply md) target_origin = None \<longrightarrow>
      on_message pf lc target target_origin ev =
        (Inr (), [PostMessage d (unknown_type_reply md) target_origin]))
   \<and> (source ev = None \<and> target = Some d \<and>
        post_rejected pf d (SerializedMessageError (serialize_message_error_event ev))
          target_origin = None \<longrightarrow>
      on_messageerror pf target target_origin ev =
        (Inr (), [PostMessage d (SerializedMessageError (serialize_message_error_event ev))
                    target_origin]))
   \<and> (source ev = Some d \<and>
        post_rejected pf d (SerializedMessageError (serialize_message_error_event ev))
          target_origin = None \<longrightarrow>
      on_messageerror pf target target_origin ev =
        (Inr (), [PostMessage d (SerializedMessageError (serialize_message_error_event ev))
                    target_origin]))"
proof -
  let ?D = "case source ev of None \<Rightarrow> target | Some s \<Rightarrow> Some s"
  have D: "message_source target ev = ?D"
    by (simp add: message_source_def)
  have r: "source ev = Some d \<or> (source ev = None \<and> target = Some d)"
    if "message_source target ev = Some d" for d
    using that by (auto simp: message_source_def split: option.splits)
  from posts_on_message [of target ev target_origin pf lc]
    posts_on_messageerror [of target ev target_origin pf]
  have safe: "(\<forall>d m t. PostMessage d m t \<in> set (snd (on_message pf lc target target_origin ev)) \<longrightarrow>
      (source ev = Some d \<or> (source ev = None \<and> target = Some d)) \<and> t = target_origin)
   \<and> (\<forall>d m t. PostMessage d m t \<in> set (snd (on_messageerror pf target target_origin ev)) \<longrightarrow>
      (source ev = Some d \<or> (source ev = None \<and> target = Some d)) \<and> t = target_origin)"
    unfolding posts_only_to_def using r by blast
  have m: "on_message pf lc target target_origin ev =
       catch_error pf target_origin ?D (try_message pf lc target_origin ?D (event_data ev))"
    by (simp add: on_message_def Let_def D)
  have e: "on_messageerror pf target target_origin ev =
       catch_error pf target_origin ?D
         (postMessage pf ?D (SerializedMessageError (serialize_message_error_event ev))
            target_origin)"
    by (simp add: on_messageerror_def Let_def D)
  have unknown: "on_message pf lc target target_origin ev =
        (Inr (), [PostMessage d (unknown_type_reply md) target_origin])"
    if "message_source target ev = Some d" "event_data ev = Data md"
      "type md \<notin> set recognized_types"
      "post_rejected pf d (unknown_type_reply md) target_origin = None" for d md
  proof -
    from that(2,3) have "on_message pf lc target target_origin ev =
        postMessage pf (message_source target ev) (unknown_type_reply md) target_origin"
      by (cases ev) (simp add: on_message_unknown unknown_type_reply_def)
    with that(1,4) show ?thesis by (simp add: postMessage_accepted)
  qed
  have report: "on_messageerror pf target target_origin ev =
        (Inr (), [PostMessage d (SerializedMessageError (serialize_message_error_event ev))
                    target_origin])"
    if "message_source target ev = Some d"
      "post_rejected pf d (SerializedMessageError (serialize_message_error_event ev))
          target_origin = None" for d
    using that by (simp add: on_messageerror_def Let_def postMessage_accepted catch_error_def)
  have src: "message_source target ev = Some d" if "source ev = Some d" for d
    using that by (simp add: message_source_def)
  have tgt: "message_source target ev = Some d" if "source ev = None" "target = Some d" for d
    using that by (simp add: message_source_def)
  have c5: "source ev = None \<and> target = Some d \<and> event_data ev = Data md \<and>
        type md \<notin> set recognized_types \<and>
        post_rejected pf d (unknown_type_reply md) target_origin = None \<longrightarrow>
      on_message pf lc target target_origin ev =
        (Inr (), [PostMessage d (unknown_type_reply md) target_origin])"
  proof
    assume a: "source ev = None \<and> target = Some d \<and> event_data ev = Data md \<and>
        type md \<notin> set recognized_types \<and>
        post_rejected pf d (unknown_type_reply md) target_origin = None"
    then have "message_source target ev = Some d" "event_data ev = Data md"
      "type md \<notin> set recognized_types"
      "post_rejected pf d (unknown_type_reply md) target_origin = None"
      by (simp_all add: message_source_def)
    then show "on_message pf lc target target_origin ev =
        (Inr (), [PostMessage d (unknown_type_reply md) target_origin])"
      by (rule unknown)
  qed
  have c6: "source ev = Some d \<and> event_data ev = Data md \<and>
        type md \<notin> set recognized_types \<and>
        post_rejected pf d (unknown_type_reply md) target_origin = None \<longrightarrow>
      on_message pf lc target target_origin ev =
        (Inr (), [PostMessage d (unknown_type_reply md) target_origin])"
  proof
    assume a: "source ev = Some d \<and> event_data ev = Data md \<and>
        type md \<notin> set recognized_types \<and>
        post_rejected pf d (unknown_type_reply md) target_origin = None"
    then have "message_source target ev = Some d" "event_data ev = Data md"
      "type md \<notin> set recognized_types"
      "post_rejected pf d (unknown_type_reply md) target_origin = None"
      by (simp_all add: message_source_def)
    then show "on_message pf lc target target_origin ev =
        (Inr (), [PostMessage d (unknown_type_reply md) target_origin])"
      by (rule unknown)
  qed
  have c7: "source ev = None \<and> target = Some d \<and>
        post_rejected pf d (SerializedMessageError (serialize_message_error_event ev))
          target_origin = None \<longrightarrow>
      on_messageerror pf target target_origin ev =
        (Inr (), [PostMessage d (SerializedMessageError (serialize_message_error_event ev))
                    target_origin])"
  proof
    assume a: "source ev = None \<and> target = Some d \<and>
        post_rejected pf d (SerializedMessageError (serialize_message_error_event ev))
          target_origin = None"
    then have "message_source target ev = Some d"
      "post_rejected pf d (SerializedMessageError (serialize_message_error_event ev))
          target_origin = None"
      by (simp_all add: message_source_def)
    then show "on_messageerror pf target target_origin ev =
        (Inr (), [PostMessage d (SerializedMessageError (serialize_message_error_event ev))
                    target_origin])"
      by (rule report)
  qed
  have c8: "source ev = Some d \<and>
        post_rejected pf d (SerializedMessageError (serialize_message_error_event ev))
          target_origin = None \<longrightarrow>
      on_messageerror pf target target_origin ev =
        (Inr (), [PostMessage d (SerializedMessageError (serialize_message_error_event ev))
                    target_origin])"
  proof
    assume a: "source ev = Some d \<and>
        post_rejected pf d (SerializedMessageError (serialize_message_error_event ev))
          target_origin = None"
    then have "message_source target ev = Some d"
      "post_rejected pf d (SerializedMessageError (serialize_message_error_event ev))
          target_origin = None"
      by (simp_all add: message_source_def)
    then show "on_messageerror pf target target_origin ev =
        (Inr (), [PostMessage d (SerializedMessageError (serialize_message_error_event ev))
                    target_origin])"
      by (rule report)
  qed
  from safe have s1: "\<forall>d m t. PostMessage d m t \<in> set (snd (on_message pf lc target target_origin ev)) \<longrightarrow>
      (source ev = Some d \<or> (source ev = None \<and> target = Some d)) \<and> t = target_origin"
    and s2: "\<forall>d m t. PostMessage d m t \<in> set (snd (on_messageerror pf target target_origin ev)) \<longrightarrow>
      (source ev = Some d \<or> (source ev = None \<and> target = Some d)) \<and> t = target_origin"
    by (rule conjunct1, rule conjunct2)
  show ?thesis
    by (intro conjI) (fact s1 s2 m e c5 c6 c7 c8)+
qed

text \<open>With a target configured: an event without a source (a worker's) is answered to
  the target, an event with a source (a window's) to the source, by either listener.\<close>

theorem replies_go_to_resolved_destination_witness:
  "source unknown_from_worker = None
   \<and> on_message example_platform lexicographic_compare (Some (Endpoint 7)) (Some ''*'')
        unknown_from_worker =
       (Inr (), [PostMessage (Endpoint 7) (unknown_type_reply example_unknown) (Some ''*'')])
   \<and> source unknown_from_window = Some (Endpoint 3)
   \<and> on_message example_platform lexicographic_compare (Some (Endpoint 7)) (Some ''*'')
        unknown_from_window =
       (Inr (), [PostMessage (Endpoint 3) (unknown_type_reply example_unknown) (Some ''*'')])
   \<and> source error_from_worker = None
   \<and> on_messageerror example_platform (Some (Endpoint 7)) None error_from_worker =
       (Inr (), [PostMessage (Endpoint 7)
                   (SerializedMessageError (serialize_message_error_event error_from_worker))
                   None])
   \<and> source error_from_window = Some (Endpoint 3)
   \<and> on_messageerror example_platform (Some (Endpoint 7)) None error_from_window =
       (Inr (), [PostMessage (Endpoint 3)
                   (SerializedMessageError (serialize_message_error_event error_from_window))
                   None])"
proof -
  have s: "source unknown_from_worker = None" "source unknown_from_window = Some (Endpoint 3)"
    "source error_from_worker = None" "source error_from_window = Some (Endpoint 3)"
    and dt: "event_data unknown_from_worker = Data example_unknown"
      "event_data unknown_from_window = Data example_unknown"
    and ty: "type example_unknown \<notin> set recognized_types"
    and pr: "\<And>d m t. post_rejected example_platform d m t = None"
    by (simp_all add: message_defs recognized_types_def)
  note inst = replies_go_to_resolved_destination
    [of example_platform lexicographic_compare "Some (Endpoint 7)"]
  from inst [of "Some ''*''" unknown_from_worker "Endpoint 7" example_unknown] s(1) dt(1) ty pr
  have a: "on_message example_platform lexicographic_compare (Some (Endpoint 7)) (Some ''*'')
        unknown_from_worker =
       (Inr (), [PostMessage (Endpoint 7) (unknown_type_reply example_unknown) (Some ''*'')])"
    by blast
  from inst [of "Some ''*''" unknown_from_window "Endpoint 3" example_unknown] s(2) dt(2) ty pr
  have b: "on_message example_platform lexicographic_compare (Some (Endpoint 7)) (Some ''*'')
        unknown_from_window =
       (Inr (), [PostMessage (Endpoint 3) (unknown_type_reply example_unknown) (Some ''*'')])"
    by blast
  from inst [of None error_from_worker "Endpoint 7"] s(3) pr
  have c: "on_messageerror example_platform (Some (Endpoint 7)) None error_from_worker =
       (Inr (), [PostMessage (Endpoint 7)
                   (SerializedMessageError (serialize_message_error_event error_from_worker))
                   None])"
    by blast
  from inst [of None error_from_window "Endpoint 3"] s(4) pr
  have d: "on_messageerror example_platform (Some (Endpoint 7)) None error_from_window =
       (Inr (), [PostMessage (Endpoint 3)
                   (SerializedMessageError (serialize_message_error_event error_from_window))
                   None])"
    by blast
  from s a b c d show ?thesis by simp
qed

text \<open>
  C4, as amended. When the \<^verbatim>\<open>type\<close> of the received object is none of the six
  that the \<^verbatim>\<open>switch\<close> knows, all that the listener does is one call of
  \<^verbatim>\<open>postMessage\<close> on the resolved destination with the string
  \<^verbatim>\<open>ERROR: Unknown message type: '<type>'\<close> and the target origin: when a
  destination was resolved and takes the string, that message is sent, it is the only
  effect and the listener returns; otherwise nothing is sent; and in no case is there
  any other effect.
\<close>

theorem unknown_type_reply_only:
  assumes "event_data ev = Data md" and "type md \<notin> set recognized_types"
  shows "on_message pf lc target target_origin ev =
           postMessage pf (message_source target ev) (unknown_type_reply md) target_origin
       \<and> (\<forall>d. message_source target ev = Some d \<and>
               post_rejected pf d (unknown_type_reply md) target_origin = None \<longrightarrow>
             on_message pf lc target target_origin ev =
               (Inr (), [PostMessage d (unknown_type_reply md) target_origin]))
       \<and> (\<forall>eff \<in> set (snd (on_message pf lc target target_origin ev)).
             \<exists>d. message_source target ev = Some d \<and>
                 eff = PostMessage d (unknown_type_reply md) target_origin)"
proof -
  from assms have eq: "on_message pf lc target target_origin ev =
      postMessage pf (message_source target ev) (unknown_type_reply md) target_origin"
    by (cases ev) (simp add: on_message_unknown unknown_type_reply_def)
  moreover have "on_message pf lc target target_origin ev =
      (Inr (), [PostMessage d (unknown_type_reply md) target_origin])"
    if "message_source target ev = Some d \<and>
        post_rejected pf d (unknown_type_reply md) target_origin = None" for d
    using that eq by (simp add: postMessage_accepted)
  moreover have "\<forall>eff \<in> set (snd (on_message pf lc target target_origin ev)).
      \<exists>d. message_source target ev = Some d \<and>
          eff = PostMessage d (unknown_type_reply md) target_origin"
    using postMessage_effects [of pf "message_source target ev" "unknown_type_reply md" target_origin]
    unfolding eq by auto
  ultimately show ?thesis by blast
qed

theorem unknown_type_reply_only_witness:
  "event_data unknown_from_worker = Data example_unknown
   \<and> type example_unknown \<notin> set recognized_types
   \<and> message_source (Some (Endpoint 7)) unknown_from_worker = Some (Endpoint 7)
   \<and> unknown_type_reply example_unknown =
       ErrorText (''ERROR: Unknown message type: '' @ [CHR 0x27] @ ''bogus'' @ [CHR 0x27])
   \<and> on_message example_platform lexicographic_compare (Some (Endpoint 7)) None
        unknown_from_worker =
       (Inr (), [PostMessage (Endpoint 7) (unknown_type_reply example_unknown) None])"
proof -
  have d: "event_data unknown_from_worker = Data example_unknown"
    and t: "type example_unknown \<notin> set recognized_types"
    and m: "message_source (Some (Endpoint 7)) unknown_from_worker = Some (Endpoint 7)"
    and p: "post_rejected example_platform (Endpoint 7) (unknown_type_reply example_unknown) None = None"
    and u: "unknown_type_reply example_unknown =
       ErrorText (''ERROR: Unknown message type: '' @ [CHR 0x27] @ ''bogus'' @ [CHR 0x27])"
    by (simp_all add: message_defs recognized_types_def message_source_def
        unknown_type_reply_def apostrophe_def)
  from unknown_type_reply_only
    [OF d t, of example_platform lexicographic_compare "Some (Endpoint 7)" None] m p
  have "on_message example_platform lexicographic_compare (Some (Endpoint 7)) None
        unknown_from_worker =
       (Inr (), [PostMessage (Endpoint 7) (unknown_type_reply example_unknown) None])"
    by blast
  with d t m u show ?thesis by simp
qed

text \<open>
  The wording of the spec does not hold: with no target configured and an event that
  has no source, no destination is resolved and the unknown type is answered by
  nothing.
\<close>

theorem unknown_type_unanswered:
  "event_data unknown_from_worker = Data example_unknown
   \<and> type example_unknown \<notin> set recognized_types
   \<and> message_source None unknown_from_worker = None
   \<and> snd (on_message example_platform lexicographic_compare None None unknown_from_worker) = []"
  by (simp add: message_defs router_defs)

text \<open>
  C3, as amended. A failure raised in the \<^verbatim>\<open>try\<close> block of either listener is
  caught and reported: when a destination was resolved and the platform takes the
  string \<^verbatim>\<open>ERROR: <description>\<close> for it, the listener returns normally and
  that string is the last message it posted (after the effects the \<^verbatim>\<open>try\<close>
  block had performed). The unknown type is one such failure. The
  \<^verbatim>\<open>postMessage\<close> of the \<^verbatim>\<open>catch\<close> block is itself unguarded.
\<close>

theorem failure_reported_when_deliverable:
  "(fst (try_message pf lc target_origin (message_source target ev) (event_data ev)) = Inl e
      \<and> message_source target ev = Some d
      \<and> post_rejected pf d (ErrorText (''ERROR: '' @ error_to_string e)) target_origin = None
    \<longrightarrow> on_message pf lc target target_origin ev =
          (Inr (), snd (try_message pf lc target_origin (Some d) (event_data ev))
                   @ [PostMessage d (ErrorText (''ERROR: '' @ error_to_string e)) target_origin]))
   \<and> (fst (postMessage pf (message_source target ev)
              (SerializedMessageError (serialize_message_error_event ev)) target_origin) = Inl e
      \<and> message_source target ev = Some d
      \<and> post_rejected pf d (ErrorText (''ERROR: '' @ error_to_string e)) target_origin = None
    \<longrightarrow> on_messageerror pf target target_origin ev =
          (Inr (), [PostMessage d (ErrorText (''ERROR: '' @ error_to_string e)) target_origin]))
   \<and> (event_data ev = Data md \<and> type md \<notin> set recognized_types
    \<longrightarrow> try_message pf lc target_origin (message_source target ev) (event_data ev) =
          raises (Thrown (''Unknown message type: '' @ apostrophe @ type md @ apostrophe)))"
proof (intro conjI impI)
  assume a: "fst (try_message pf lc target_origin (message_source target ev) (event_data ev)) = Inl e
      \<and> message_source target ev = Some d
      \<and> post_rejected pf d (ErrorText (''ERROR: '' @ error_to_string e)) target_origin = None"
  then have "fst (try_message pf lc target_origin (Some d) (event_data ev)) = Inl e"
    and "post_rejected pf d (ErrorText (''ERROR: '' @ error_to_string e)) target_origin = None"
    by auto
  from catch_error_caught [OF this] a
  show "on_message pf lc target target_origin ev =
          (Inr (), snd (try_message pf lc target_origin (Some d) (event_data ev))
                   @ [PostMessage d (ErrorText (''ERROR: '' @ error_to_string e)) target_origin])"
    by (simp add: on_message_def Let_def)
next
  assume a: "fst (postMessage pf (message_source target ev)
              (SerializedMessageError (serialize_message_error_event ev)) target_origin) = Inl e
      \<and> message_source target ev = Some d
      \<and> post_rejected pf d (ErrorText (''ERROR: '' @ error_to_string e)) target_origin = None"
  then have "snd (postMessage pf (Some d)
              (SerializedMessageError (serialize_message_error_event ev)) target_origin) = []"
    by (auto simp: postMessage_def raises_def performs_def split: option.splits)
  moreover from a have "fst (postMessage pf (Some d)
              (SerializedMessageError (serialize_message_error_event ev)) target_origin) = Inl e"
    and "post_rejected pf d (ErrorText (''ERROR: '' @ error_to_string e)) target_origin = None"
    by auto
  note catch_error_caught [OF this]
  ultimately show "on_messageerror pf target target_origin ev =
          (Inr (), [PostMessage d (ErrorText (''ERROR: '' @ error_to_string e)) target_origin])"
    using a by (simp add: on_messageerror_def Let_def)
next
  assume "event_data ev = Data md \<and> type md \<notin> set recognized_types"
  then show "try_message pf lc target_origin (message_source target ev) (event_data ev) =
          raises (Thrown (''Unknown message type: '' @ apostrophe @ type md @ apostrophe))"
    by (simp add: unknown_switch)
qed

text \<open>An unknown type from a window; a report that the platform cannot clone for the
  destination.\<close>

theorem failure_reported_when_deliverable_witness:
  "fst (try_message example_platform lexicographic_compare None
          (message_source None unknown_from_window) (event_data unknown_from_window)) =
     Inl (Thrown (''Unknown message type: '' @ [CHR 0x27] @ ''bogus'' @ [CHR 0x27]))
   \<and> message_source None unknown_from_window = Some (Endpoint 3)
   \<and> on_message example_platform lexicographic_compare None None unknown_from_window =
       (Inr (), [PostMessage (Endpoint 3)
          (ErrorText (''ERROR: Unknown message type: '' @ [CHR 0x27] @ ''bogus'' @ [CHR 0x27])) None])
   \<and> fst (postMessage strings_only_platform (message_source None error_from_window)
          (SerializedMessageError (serialize_message_error_event error_from_window)) None) =
       Inl (DOMException ''DataCloneError'')
   \<and> on_messageerror strings_only_platform None None error_from_window =
       (Inr (), [PostMessage (Endpoint 3) (ErrorText ''ERROR: DOMException: DataCloneError'') None])"
proof -
  have t: "fst (try_message example_platform lexicographic_compare None
          (message_source None unknown_from_window) (event_data unknown_from_window)) =
     Inl (Thrown (''Unknown message type: '' @ [CHR 0x27] @ ''bogus'' @ [CHR 0x27]))"
    and m: "message_source None unknown_from_window = Some (Endpoint 3)"
    and p: "post_rejected example_platform (Endpoint 3)
        (ErrorText (''ERROR: '' @ error_to_string
           (Thrown (''Unknown message type: '' @ [CHR 0x27] @ ''bogus'' @ [CHR 0x27])))) None = None"
    and s: "snd (try_message example_platform lexicographic_compare None (Some (Endpoint 3))
          (event_data unknown_from_window)) = []"
    by (simp_all add: message_defs router_defs)
  have t': "fst (postMessage strings_only_platform (message_source None error_from_window)
          (SerializedMessageError (serialize_message_error_event error_from_window)) None) =
       Inl (DOMException ''DataCloneError'')"
    and m': "message_source None error_from_window = Some (Endpoint 3)"
    and p': "post_rejected strings_only_platform (Endpoint 3)
        (ErrorText (''ERROR: '' @ error_to_string (DOMException ''DataCloneError''))) None = None"
    by (simp_all add: message_defs router_defs)
  note inst = failure_reported_when_deliverable
  from inst [of example_platform lexicographic_compare None None unknown_from_window
      "Thrown (''Unknown message type: '' @ [CHR 0x27] @ ''bogus'' @ [CHR 0x27])" "Endpoint 3"]
    t m p s
  have a: "on_message example_platform lexicographic_compare None None unknown_from_window =
       (Inr (), [PostMessage (Endpoint 3)
          (ErrorText (''ERROR: Unknown message type: '' @ [CHR 0x27] @ ''bogus'' @ [CHR 0x27])) None])"
    by simp
  from inst [of strings_only_platform _ None None error_from_window
      "DOMException ''DataCloneError''" "Endpoint 3"] t' m' p'
  have b: "on_messageerror strings_only_platform None None error_from_window =
       (Inr (), [PostMessage (Endpoint 3) (ErrorText ''ERROR: DOMException: DataCloneError'') None])"
    by simp
  from t m a t' b show ?thesis by simp
qed

text \<open>
  The wording of the spec does not hold. The listeners were attached without a target
  and the event has no source (a dedicated worker's): the unknown type is raised, the
  \<^verbatim>\<open>catch\<close> block reads \<^verbatim>\<open>postMessage\<close> of \<^verbatim>\<open>undefined\<close>, and the
  listener ends with that error, having posted nothing.
\<close>

theorem failure_without_destination_unreported:
  "fst (try_message example_platform lexicographic_compare None
          (message_source None unknown_from_worker) (event_data unknown_from_worker)) =
     Inl (Thrown (''Unknown message type: '' @ [CHR 0x27] @ ''bogus'' @ [CHR 0x27]))
   \<and> on_message example_platform lexicographic_compare None None unknown_from_worker =
       (Inl (undefined_read ''postMessage''), [])"
  by (simp add: message_defs router_defs)

lemma on_messageerror_effects:
  "snd (on_messageerror pf target T ev) = [] \<or>
   (\<exists>d. message_source target ev = Some d \<and>
      snd (on_messageerror pf target T ev) =
        [PostMessage d (SerializedMessageError (serialize_message_error_event ev)) T]) \<or>
   (\<exists>d e. message_source target ev = Some d \<and>
      snd (on_messageerror pf target T ev) = [PostMessage d (ErrorText e) T])"
  by (auto simp: on_messageerror_def Let_def catch_error_def postMessage_def raises_def
      performs_def split: option.splits)

text \<open>
  C8, as amended. Where the payload may not be cloned for the receiver, the platform
  raises \<^verbatim>\<open>messageerror\<close> in place of \<^verbatim>\<open>message\<close>, and what the receiver
  then posts holds no \<^verbatim>\<open>receive-serialized-file-system-handles\<close> message. When a
  destination was resolved and takes the report, exactly one message is posted, the
  \<^verbatim>\<open>serialized-message-error\<close> report, whose snapshot is the event's data, origin,
  last event id, presence of a source and number of ports; in every case at most one
  message is posted. The report passes \<open>assert_equals_serialized_message_error_event\<close>
  exactly when its data is \<^verbatim>\<open>null\<close>, its last event id is empty, it has no ports,
  and its origin and \<open>has_source\<close> are the expected ones.
\<close>

theorem message_error_report:
  "(\<forall>d m t. PostMessage d m t \<in> set (snd (deliver pf lc target target_origin False ev)) \<longrightarrow>
       message_type m \<noteq> Some ''receive-serialized-file-system-handles'')
   \<and> (message_source target ev = Some d \<and>
        post_rejected pf d (SerializedMessageError (serialize_message_error_event ev))
          target_origin = None \<longrightarrow>
      deliver pf lc target target_origin False ev =
        (Inr (), [PostMessage d (SerializedMessageError (serialize_message_error_event ev))
                    target_origin]))
   \<and> length (snd (deliver pf lc target target_origin False ev)) \<le> 1
   \<and> serialize_message_error_event ev =
       \<lparr>data = event_data ev, origin = event_origin ev, last_event_id = lastEventId ev,
        has_source = (source ev \<noteq> None), ports_length = length (ports ev)\<rparr>
   \<and> (assert_equals_serialized_message_error_event serialized expected_origin
         expected_has_source = Inr () \<longleftrightarrow>
       data serialized = Null \<and> last_event_id serialized = [] \<and> ports_length serialized = 0 \<and>
       origin serialized = expected_origin \<and> has_source serialized = expected_has_source)"
proof -
  have dl: "deliver pf lc target target_origin False ev =
      on_messageerror pf target target_origin ev"
    by (simp add: deliver_def)
  have never: "message_type m \<noteq> Some ''receive-serialized-file-system-handles''"
    if "PostMessage d m t \<in> set (snd (on_messageerror pf target target_origin ev))" for d m t
    using that on_messageerror_effects [of pf target target_origin ev] by auto
  have one: "on_messageerror pf target target_origin ev =
        (Inr (), [PostMessage d (SerializedMessageError (serialize_message_error_event ev))
                    target_origin])"
    if "message_source target ev = Some d \<and>
        post_rejected pf d (SerializedMessageError (serialize_message_error_event ev))
          target_origin = None"
    using that by (simp add: on_messageerror_def Let_def postMessage_accepted catch_error_def)
  have most: "length (snd (on_messageerror pf target target_origin ev)) \<le> 1"
    using on_messageerror_effects [of pf target target_origin ev] by auto
  have fields: "serialize_message_error_event ev =
       \<lparr>data = event_data ev, origin = event_origin ev, last_event_id = lastEventId ev,
        has_source = (source ev \<noteq> None), ports_length = length (ports ev)\<rparr>"
    by (simp add: serialize_message_error_event_def)
  have verified: "assert_equals_serialized_message_error_event serialized expected_origin
         expected_has_source = Inr () \<longleftrightarrow>
       data serialized = Null \<and> last_event_id serialized = [] \<and> ports_length serialized = 0 \<and>
       origin serialized = expected_origin \<and> has_source serialized = expected_has_source"
    by (auto simp: serialized_event_verified)
  from never one most fields verified show ?thesis
    unfolding dl by blast
qed

theorem message_error_report_witness:
  "message_source None error_from_window = Some (Endpoint 3)
   \<and> deliver example_platform lexicographic_compare None (Some ''*'') False error_from_window =
      (Inr (), [PostMessage (Endpoint 3)
         (SerializedMessageError
            \<lparr>data = Null, origin = ''https://web-platform.test'', last_event_id = [],
             has_source = True, ports_length = 0\<rparr>) (Some ''*'')])
   \<and> assert_equals_serialized_message_error_event
        (serialize_message_error_event error_from_window) ''https://web-platform.test'' True
      = Inr ()
   \<and> assert_equals_serialized_message_error_event
        (serialize_message_error_event error_from_window) ''https://web-platform.test'' False
      \<noteq> Inr ()"
proof -
  have m: "message_source None error_from_window = Some (Endpoint 3)"
    and p: "post_rejected example_platform (Endpoint 3)
        (SerializedMessageError (serialize_message_error_event error_from_window)) (Some ''*'')
        = None"
    and s: "serialize_message_error_event error_from_window =
        \<lparr>data = Null, origin = ''https://web-platform.test'', last_event_id = [],
             has_source = True, ports_length = 0\<rparr>"
    by (simp_all add: message_defs router_defs)
  let ?report = "serialize_message_error_event error_from_window"
  note inst = message_error_report [of example_platform lexicographic_compare None
      "Some ''*''" error_from_window "Endpoint 3" ?report "''https://web-platform.test''"]
  from inst [of True] m p
  have "deliver example_platform lexicographic_compare None (Some ''*'') False
      error_from_window =
      (Inr (), [PostMessage (Endpoint 3) (SerializedMessageError ?report) (Some ''*'')])"
    by blast
  then have a: "deliver example_platform lexicographic_compare None (Some ''*'') False
      error_from_window =
      (Inr (), [PostMessage (Endpoint 3)
         (SerializedMessageError
            \<lparr>data = Null, origin = ''https://web-platform.test'', last_event_id = [],
             has_source = True, ports_length = 0\<rparr>) (Some ''*'')])"
    by (simp only: s)
  from inst [of True]
  have "assert_equals_serialized_message_error_event ?report ''https://web-platform.test'' True
      = Inr () \<longleftrightarrow>
       data ?report = Null \<and> last_event_id ?report = [] \<and> ports_length ?report = 0 \<and>
       origin ?report = ''https://web-platform.test'' \<and> has_source ?report = True"
    by blast
  then have b: "assert_equals_serialized_message_error_event ?report
      ''https://web-platform.test'' True = Inr ()"
    by (simp add: s)
  from inst [of False]
  have "assert_equals_serialized_message_error_event ?report ''https://web-platform.test'' False
      = Inr () \<longleftrightarrow>
       data ?report = Null \<and> last_event_id ?report = [] \<and> ports_length ?report = 0 \<and>
       origin ?report = ''https://web-platform.test'' \<and> has_source ?report = False"
    by blast
  then have c: "assert_equals_serialized_message_error_event ?report
      ''https://web-platform.test'' False \<noteq> Inr ()"
    by (simp add: s)
  from m a b c show ?thesis by simp
qed

text \<open>
  The wording of the spec does not hold: with no target configured and an event that
  has no source, the \<^verbatim>\<open>messageerror\<close> listener resolves no destination and
  posts no report at all.
\<close>

theorem message_error_unreported:
  "message_source None error_from_worker = None
   \<and> deliver example_platform lexicographic_compare None None False error_from_worker =
       (Inl (undefined_read ''postMessage''), [])"
  by (simp add: deliver_def message_defs router_defs)

section \<open>Properties of the round trip\<close>













end
